theory Spec2Isabelle
  imports Complex_Main "HOL-Library.Word"
begin

section \<open>Pointwise quadrature kernels of the libCEED examples\<close>

text \<open>
  The kernels of \<^verbatim>\<open>examples/ceed/ex1.okl\<close>, of the BP3/BP4 diffusion kernels
  (\<^verbatim>\<open>SetupDiff3Rhs\<close>, \<^verbatim>\<open>Diff3\<close>), of \<^verbatim>\<open>examples/navier-stokes/densitycurrent.h\<close>
  and of \<^verbatim>\<open>examples/shallow-water/shallow-water.h\<close>, embedded as HOL functions.

  Conventions of the embedding.
  \<^item> A C array reached through a pointer is a total function from indices to scalars;
    no bounds are checked, as in the source.
  \<^item> \<^verbatim>\<open>CeedInt\<close> indices and the point count \<^verbatim>\<open>Q\<close> are natural numbers; index
    arithmetic is assumed to stay inside the range of \<^verbatim>\<open>int\<close>.
  \<^item> An \<^verbatim>\<open>int\<close> whose value decides a branch (the context entries of
    \<^verbatim>\<open>f_build_mass\<close>) is a 32-bit word, and its arithmetic wraps.
  \<^item> \<^verbatim>\<open>CeedScalar\<close> is a type variable with the operations a kernel uses, for the
    kernels that use only \<^verbatim>\<open>+ - *\<close>, so that their theorems do not rest on any law
    of real arithmetic; it is \<^typ>\<open>real\<close> for the kernels that call \<^verbatim>\<open>sin\<close>,
    \<^verbatim>\<open>sqrt\<close>, \<^verbatim>\<open>exp\<close> or divide: for these the rounding of double arithmetic,
    infinities and NaN are not modelled.
  \<^item> The quadrature loop \<^verbatim>\<open>for (i=0; i<Q; i++)\<close> is a fold of the loop body over
    \<open>[0..<Q]\<close>; the state threaded through it is the output storage.
\<close>

subsection \<open>Buffers and the quadrature-point loop\<close>

type_synonym 'a buf = "nat \<Rightarrow> 'a"

text \<open>The body is run for \<open>i = 0, 1, ..., Q - 1\<close> in this order.\<close>

definition qloop :: "nat \<Rightarrow> (nat \<Rightarrow> 's \<Rightarrow> 's) \<Rightarrow> 's \<Rightarrow> 's" where
  "qloop Q body s = fold body [0..<Q] s"

text \<open>A finite array literal, used for concrete inputs: zero outside the listed cells.\<close>

definition buf_of :: "'a list \<Rightarrow> ('a::zero) buf" where
  "buf_of xs a = (if a < length xs then xs ! a else 0)"

subsection \<open>\<^verbatim>\<open>ex1.okl\<close>: mass setup and mass apply\<close>

text \<open>
  \<^verbatim>\<open>const int dim = ctx[0]; const int space_dim = ctx[1];
  const CeedInt dims = dim + 10*space_dim;\<close>
  The context is an array of \<^verbatim>\<open>int\<close>, 32 bits wide. The product and the sum are those
  of the machine: they wrap modulo \<open>2\<^sup>3\<^sup>2\<close> where the integer result leaves the range of
  \<^verbatim>\<open>int\<close> (C leaves signed overflow undefined; the compiled kernel wraps). The comparisons
  \<^verbatim>\<open>dims==11\<close>, \<^verbatim>\<open>dims==22\<close>, \<^verbatim>\<open>dims==33\<close> are the same for the signed and the
  unsigned reading of a word.
\<close>

definition f_build_mass_dims :: "32 word buf \<Rightarrow> 32 word" where
  "f_build_mass_dims ctx = (let dim = ctx 0; space_dim = ctx 1 in dim + 10 * space_dim)"

text \<open>
  The loop body of \<^verbatim>\<open>f_build_mass\<close>: three independent \<^verbatim>\<open>if\<close> statements,
  each with one store into \<^verbatim>\<open>v[oOf7[0]+i]\<close>.
\<close>

definition f_build_mass_point ::
  "32 word buf \<Rightarrow> nat \<Rightarrow> nat buf \<Rightarrow> nat buf \<Rightarrow> 'a buf \<Rightarrow> nat \<Rightarrow> 'a buf \<Rightarrow> ('a::{plus,minus,times}) buf"
where
  "f_build_mass_point ctx Q iOf7 oOf7 u i v =
    (let dims = f_build_mass_dims ctx;
         v1 = (if dims = 11 then v(oOf7 0 + i := u (iOf7 0 + i) * u (iOf7 1 + i)) else v);
         v2 = (if dims = 22
               then v1(oOf7 0 + i :=
                      (u (iOf7 0 + i + Q * 0) * u (iOf7 0 + i + Q * 3)
                       - u (iOf7 0 + i + Q * 1) * u (iOf7 0 + i + Q * 2)) * u (iOf7 1 + i))
               else v1);
         v3 = (if dims = 33
               then v2(oOf7 0 + i :=
                      (u (iOf7 0 + i + Q * 0)
                         * (u (iOf7 0 + i + Q * 4) * u (iOf7 0 + i + Q * 8)
                            - u (iOf7 0 + i + Q * 5) * u (iOf7 0 + i + Q * 7))
                       - u (iOf7 0 + i + Q * 1)
                         * (u (iOf7 0 + i + Q * 3) * u (iOf7 0 + i + Q * 8)
                            - u (iOf7 0 + i + Q * 5) * u (iOf7 0 + i + Q * 6))
                       + u (iOf7 0 + i + Q * 2)
                         * (u (iOf7 0 + i + Q * 3) * u (iOf7 0 + i + Q * 7)
                            - u (iOf7 0 + i + Q * 4) * u (iOf7 0 + i + Q * 6)))
                      * u (iOf7 1 + i))
               else v2)
     in v3)"

definition f_build_mass ::
  "32 word buf \<Rightarrow> nat \<Rightarrow> nat buf \<Rightarrow> nat buf \<Rightarrow> 'a buf \<Rightarrow> 'a buf \<Rightarrow> ('a::{plus,minus,times}) buf"
where
  "f_build_mass ctx Q iOf7 oOf7 u v = qloop Q (f_build_mass_point ctx Q iOf7 oOf7 u) v"

text \<open>
  \<^verbatim>\<open>f_apply_mass\<close>: \<^verbatim>\<open>out[oOf7[0]+i] = in[iOf7[1]+i] * in[iOf7[0]+i];\<close>
  The context pointer is not read.
\<close>

definition f_apply_mass_point ::
  "'c \<Rightarrow> nat \<Rightarrow> nat buf \<Rightarrow> nat buf \<Rightarrow> 'a buf \<Rightarrow> nat \<Rightarrow> 'a buf \<Rightarrow> ('a::times) buf"
where
  "f_apply_mass_point ctx Q iOf7 oOf7 inp i out =
     out(oOf7 0 + i := inp (iOf7 1 + i) * inp (iOf7 0 + i))"

definition f_apply_mass ::
  "'c \<Rightarrow> nat \<Rightarrow> nat buf \<Rightarrow> nat buf \<Rightarrow> 'a buf \<Rightarrow> 'a buf \<Rightarrow> ('a::times) buf"
where
  "f_apply_mass ctx Q iOf7 oOf7 inp out = qloop Q (f_apply_mass_point ctx Q iOf7 oOf7 inp) out"

subsection \<open>BP3/BP4 diffusion: \<^verbatim>\<open>SetupDiff3Rhs\<close> and \<^verbatim>\<open>Diff3\<close>\<close>

text \<open>
  \<^verbatim>\<open>M_PI\<close>, from \<^verbatim>\<open>math.h\<close>; the value is the one the \<^verbatim>\<open>#define\<close> of
  \<^verbatim>\<open>shallow-water.h\<close> and \<^verbatim>\<open>densitycurrent.h\<close> gives it.
\<close>

definition M_PI :: real where
  "M_PI = 3.14159265358979323846"

text \<open>
  The loop body of \<^verbatim>\<open>SetupDiff3Rhs\<close>, statement by statement. Components 1 and 2 of
  the target are copied from \<^verbatim>\<open>out[oOf7[1]+i+0*Q]\<close>, and components 1 and 2 of the
  right-hand side from \<^verbatim>\<open>out[oOf7[2]+i+0*Q]\<close>: these are reads of the output array.
\<close>

definition SetupDiff3Rhs_point ::
  "'c \<Rightarrow> nat \<Rightarrow> nat buf \<Rightarrow> nat buf \<Rightarrow> real buf \<Rightarrow> nat \<Rightarrow> real buf \<Rightarrow> real buf"
where
  "SetupDiff3Rhs_point ctx Q iOf7 oOf7 inp i out =
    (let MPI = (3.14159265358979323846 :: real);
         D = (3 :: int);
         J11 = inp (iOf7 1 + i + Q * 0);
         J21 = inp (iOf7 1 + i + Q * 1);
         J31 = inp (iOf7 1 + i + Q * 2);
         J12 = inp (iOf7 1 + i + Q * 3);
         J22 = inp (iOf7 1 + i + Q * 4);
         J32 = inp (iOf7 1 + i + Q * 5);
         J13 = inp (iOf7 1 + i + Q * 6);
         J23 = inp (iOf7 1 + i + Q * 7);
         J33 = inp (iOf7 1 + i + Q * 8);
         A11 = J22 * J33 - J23 * J32;
         A12 = J13 * J32 - J12 * J33;
         A13 = J12 * J23 - J13 * J22;
         c = [0, 1, 2 :: real];
         k = [1, 2, 3 :: real];
         out = out(oOf7 0 + i + 0 * Q :=
                 sin (M_PI * (c ! 0 + k ! 0 * inp (iOf7 0 + 0 * Q + i)))
                 * sin (M_PI * (c ! 1 + k ! 1 * inp (iOf7 0 + 1 * Q + i)))
                 * sin (M_PI * (c ! 2 + k ! 2 * inp (iOf7 0 + 2 * Q + i))));
         out = out(oOf7 0 + i + 1 * Q := out (oOf7 1 + i + 0 * Q));
         out = out(oOf7 0 + i + 2 * Q := out (oOf7 1 + i + 0 * Q));
         rho = inp (iOf7 2 + i) * (J11 * A11 + J21 * A12 + J31 * A13);
         out = out(oOf7 1 + i + 0 * Q :=
                 rho * M_PI * M_PI * (k ! 0 * k ! 0 + k ! 1 * k ! 1 + k ! 2 * k ! 2)
                 * sin (M_PI * (c ! 0 + k ! 0 * inp (iOf7 0 + 0 * Q + i)))
                 * sin (M_PI * (c ! 1 + k ! 1 * inp (iOf7 0 + 1 * Q + i)))
                 * sin (M_PI * (c ! 2 + k ! 2 * inp (iOf7 0 + 2 * Q + i))));
         out = out(oOf7 1 + i + 1 * Q := out (oOf7 2 + i + 0 * Q));
         out = out(oOf7 1 + i + 2 * Q := out (oOf7 2 + i + 0 * Q))
     in out)"

definition SetupDiff3Rhs ::
  "'c \<Rightarrow> nat \<Rightarrow> nat buf \<Rightarrow> nat buf \<Rightarrow> real buf \<Rightarrow> real buf \<Rightarrow> real buf"
where
  "SetupDiff3Rhs ctx Q iOf7 oOf7 inp out = qloop Q (SetupDiff3Rhs_point ctx Q iOf7 oOf7 inp) out"

text \<open>The loop body of \<^verbatim>\<open>Diff3\<close>: three 3-vectors contracted with a packed symmetric matrix.\<close>

definition Diff3_point ::
  "'c \<Rightarrow> nat \<Rightarrow> nat buf \<Rightarrow> nat buf \<Rightarrow> 'a buf \<Rightarrow> nat \<Rightarrow> 'a buf \<Rightarrow> ('a::{plus,times}) buf"
where
  "Diff3_point ctx Q iOf7 oOf7 inp i out =
    (let ug00 = inp (iOf7 0 + i + Q * (0 + 0 * 3));
         ug01 = inp (iOf7 0 + i + Q * (0 + 1 * 3));
         ug02 = inp (iOf7 0 + i + Q * (0 + 2 * 3));
         out = out(oOf7 0 + i + Q * (0 + 0 * 3) :=
                 inp (iOf7 1 + i + Q * 0) * ug00
                 + inp (iOf7 1 + i + Q * 1) * ug01 + inp (iOf7 1 + i + Q * 2) * ug02);
         out = out(oOf7 0 + i + Q * (0 + 1 * 3) :=
                 inp (iOf7 1 + i + Q * 1) * ug00
                 + inp (iOf7 1 + i + Q * 3) * ug01 + inp (iOf7 1 + i + Q * 4) * ug02);
         out = out(oOf7 0 + i + Q * (0 + 2 * 3) :=
                 inp (iOf7 1 + i + Q * 2) * ug00
                 + inp (iOf7 1 + i + Q * 4) * ug01 + inp (iOf7 1 + i + Q * 5) * ug02);
         ug10 = inp (iOf7 0 + i + Q * (1 + 0 * 3));
         ug11 = inp (iOf7 0 + i + Q * (1 + 1 * 3));
         ug12 = inp (iOf7 0 + i + Q * (1 + 2 * 3));
         out = out(oOf7 0 + i + Q * (1 + 0 * 3) :=
                 inp (iOf7 1 + i + Q * 0) * ug10
                 + inp (iOf7 1 + i + Q * 1) * ug11 + inp (iOf7 1 + i + Q * 2) * ug12);
         out = out(oOf7 0 + i + Q * (1 + 1 * 3) :=
                 inp (iOf7 1 + i + Q * 1) * ug10
                 + inp (iOf7 1 + i + Q * 3) * ug11 + inp (iOf7 1 + i + Q * 4) * ug12);
         out = out(oOf7 0 + i + Q * (1 + 2 * 3) :=
                 inp (iOf7 1 + i + Q * 2) * ug10
                 + inp (iOf7 1 + i + Q * 4) * ug11 + inp (iOf7 1 + i + Q * 5) * ug12);
         ug20 = inp (iOf7 0 + i + Q * (2 + 0 * 3));
         ug21 = inp (iOf7 0 + i + Q * (2 + 1 * 3));
         ug22 = inp (iOf7 0 + i + Q * (2 + 2 * 3));
         out = out(oOf7 0 + i + Q * (2 + 0 * 3) :=
                 inp (iOf7 1 + i + Q * 0) * ug20
                 + inp (iOf7 1 + i + Q * 1) * ug21 + inp (iOf7 1 + i + Q * 2) * ug22);
         out = out(oOf7 0 + i + Q * (2 + 1 * 3) :=
                 inp (iOf7 1 + i + Q * 1) * ug20
                 + inp (iOf7 1 + i + Q * 3) * ug21 + inp (iOf7 1 + i + Q * 4) * ug22);
         out = out(oOf7 0 + i + Q * (2 + 2 * 3) :=
                 inp (iOf7 1 + i + Q * 2) * ug20
                 + inp (iOf7 1 + i + Q * 4) * ug21 + inp (iOf7 1 + i + Q * 5) * ug22)
     in out)"

definition Diff3 ::
  "'c \<Rightarrow> nat \<Rightarrow> nat buf \<Rightarrow> nat buf \<Rightarrow> 'a buf \<Rightarrow> 'a buf \<Rightarrow> ('a::{plus,times}) buf"
where
  "Diff3 ctx Q iOf7 oOf7 inp out = qloop Q (Diff3_point ctx Q iOf7 oOf7 inp) out"

subsection \<open>QFunctions with the libCEED C signature\<close>

text \<open>
  \<^verbatim>\<open>int f(void *ctx, CeedInt Q, const CeedScalar *const *in, CeedScalar *const *out)\<close>:
  \<^verbatim>\<open>in[f]\<close> is the array \<open>inp f\<close>; the cell \<^verbatim>\<open>out[f][a]\<close> of the output storage is
  \<open>out (f, a)\<close>, so that the arrays of different output fields are distinct objects.
  The context is an array of scalars. A QFunction returns its status and the output
  storage it leaves.
\<close>

type_synonym 'a fields = "nat \<Rightarrow> 'a buf"
type_synonym 'a outs = "nat \<times> nat \<Rightarrow> 'a"

subsection \<open>\<^verbatim>\<open>shallow-water.h\<close>\<close>

definition SWICs_point :: "real buf \<Rightarrow> nat \<Rightarrow> real fields \<Rightarrow> nat \<Rightarrow> real outs \<Rightarrow> real outs" where
  "SWICs_point context Q inp i out =
    (let X = inp 0;
         u0 = context 0;
         v0 = context 1;
         h0 = context 2;
         x = X (i + 0 * Q);
         y = X (i + 1 * Q);
         out = out((0, i + 0 * Q) := u0);
         out = out((0, i + 1 * Q) := v0);
         out = out((0, i + 2 * Q) := h0);
         out = out((1, i + 0 * Q) := sin x + cos y);
         out = out((2, i + 0 * Q) := 0);
         out = out((3, i + 0 * Q) := x);
         out = out((3, i + 1 * Q) := y)
     in out)"

definition SWICs :: "real buf \<Rightarrow> nat \<Rightarrow> real fields \<Rightarrow> real outs \<Rightarrow> int \<times> real outs" where
  "SWICs context Q inp out = (0, qloop Q (SWICs_point context Q inp) out)"

definition SWExplicit_point ::
  "'a buf \<Rightarrow> nat \<Rightarrow> 'a fields \<Rightarrow> nat \<Rightarrow> 'a outs \<Rightarrow> ('a::{zero,plus,minus,uminus,times}) outs"
where
  "SWExplicit_point context Q inp i out =
    (let q = inp 0; dq = inp 1; qdata = inp 2; x = inp 3;
         f = context 0;
         u = [q (i + 0 * Q), q (i + 1 * Q)];
         h = q (i + 2 * Q);
         du = [[dq (i + (0 + 4 * 0) * Q), dq (i + (0 + 4 * 1) * Q)],
               [dq (i + (1 + 4 * 0) * Q), dq (i + (1 + 4 * 1) * Q)]];
         dh = [dq (i + (2 + 4 * 0) * Q), dq (i + (2 + 4 * 1) * Q)];
         wJ = qdata (i + 0 * Q);
         wBJ = [qdata (i + 1 * Q), qdata (i + 2 * Q), qdata (i + 3 * Q), qdata (i + 4 * Q)];
         out = out((1, i + (0 + 3 * 0) * Q) := 0);
         out = out((1, i + (0 + 3 * 1) * Q) := 0);
         out = out((1, i + (1 + 3 * 0) * Q) := 0);
         out = out((1, i + (1 + 3 * 1) * Q) := 0);
         out = out((0, i + 0 * Q) := - (u ! 0 * du ! 0 ! 0 + u ! 1 * du ! 0 ! 1 + f * u ! 1));
         out = out((0, i + 1 * Q) := - (u ! 0 * du ! 1 ! 0 + u ! 1 * du ! 1 ! 1 - f * u ! 0));
         out = out((1, i + (2 + 3 * 0) * Q) := 0);
         out = out((1, i + (2 + 3 * 1) * Q) := 0);
         out = out((0, i + 2 * Q) := 0)
     in out)"

definition SWExplicit ::
  "'a buf \<Rightarrow> nat \<Rightarrow> 'a fields \<Rightarrow> 'a outs \<Rightarrow> int \<times> ('a::{zero,plus,minus,uminus,times}) outs"
where
  "SWExplicit context Q inp out = (0, qloop Q (SWExplicit_point context Q inp) out)"

definition SWImplicit_point ::
  "'a buf \<Rightarrow> nat \<Rightarrow> 'a fields \<Rightarrow> nat \<Rightarrow> 'a outs \<Rightarrow> ('a::{zero,plus,minus,uminus,times}) outs"
where
  "SWImplicit_point context Q inp i out =
    (let q = inp 0; dq = inp 1; qdata = inp 2; x = inp 3; h_sq = inp 4; H_0q = inp 5;
         g = context 0;
         u = [q (i + 0 * Q), q (i + 1 * Q)];
         h = q (i + 2 * Q);
         du = [[dq (i + (0 + 4 * 0) * Q), dq (i + (0 + 4 * 1) * Q)],
               [dq (i + (1 + 4 * 0) * Q), dq (i + (1 + 4 * 1) * Q)]];
         dh = [dq (i + (2 + 4 * 0) * Q), dq (i + (2 + 4 * 1) * Q)];
         wJ = qdata (i + 0 * Q);
         wBJ = [qdata (i + 1 * Q), qdata (i + 2 * Q), qdata (i + 3 * Q), qdata (i + 4 * Q)];
         h_s = h_sq (i + 0 * Q);
         H_0 = H_0q (i + 0 * Q);
         out = out((1, i + (0 + 3 * 0) * Q) := - g * (h + h_s) * (wBJ ! 0 + wBJ ! 1));
         out = out((1, i + (0 + 3 * 1) * Q) := 0);
         out = out((1, i + (1 + 3 * 0) * Q) := 0);
         out = out((1, i + (1 + 3 * 1) * Q) := - g * (h + h_s) * (wBJ ! 2 + wBJ ! 3));
         out = out((0, i + 0 * Q) := 0);
         out = out((0, i + 1 * Q) := 0);
         out = out((1, i + (2 + 3 * 0) * Q) := - (h + H_0) * (u ! 0 * wBJ ! 0 + u ! 1 * wBJ ! 1));
         out = out((1, i + (2 + 3 * 1) * Q) := - (h + H_0) * (u ! 0 * wBJ ! 2 + u ! 1 * wBJ ! 3));
         out = out((0, i + 2 * Q) := 0)
     in out)"

definition SWImplicit ::
  "'a buf \<Rightarrow> nat \<Rightarrow> 'a fields \<Rightarrow> 'a outs \<Rightarrow> int \<times> ('a::{zero,plus,minus,uminus,times}) outs"
where
  "SWImplicit context Q inp out = (0, qloop Q (SWImplicit_point context Q inp) out)"

definition SWJacobian_point ::
  "'a buf \<Rightarrow> nat \<Rightarrow> 'a fields \<Rightarrow> nat \<Rightarrow> 'a outs \<Rightarrow> ('a::{zero,plus,minus,uminus,times}) outs"
where
  "SWJacobian_point context Q inp i out =
    (let q = inp 0; dq = inp 1; qdata = inp 2;
         g = context 0;
         u = [q (i + 0 * Q), q (i + 1 * Q)];
         h = q (i + 2 * Q);
         du = [[dq (i + (0 + 4 * 0) * Q), dq (i + (0 + 4 * 1) * Q)],
               [dq (i + (1 + 4 * 0) * Q), dq (i + (1 + 4 * 1) * Q)]];
         dh = [dq (i + (2 + 4 * 0) * Q), dq (i + (2 + 4 * 1) * Q)];
         wBJ = [qdata (i + 1 * Q), qdata (i + 2 * Q), qdata (i + 3 * Q), qdata (i + 4 * Q)];
         out = out((1, i + (0 + 3 * 0) * Q) := - g * wBJ ! 0 * dh ! 0);
         out = out((1, i + (0 + 3 * 1) * Q) := 0);
         out = out((1, i + (1 + 3 * 0) * Q) := 0);
         out = out((1, i + (1 + 3 * 1) * Q) := - g * wBJ ! 3 * dh ! 1);
         out = out((0, i + 0 * Q) := 0);
         out = out((0, i + 1 * Q) := 0);
         out = out((1, i + (2 + 3 * 0) * Q) := - (du ! 0 ! 0 * wBJ ! 0 + u ! 0 * dh ! 0 * wBJ ! 1));
         out = out((1, i + (2 + 3 * 1) * Q) := - (du ! 1 ! 1 * wBJ ! 2 + u ! 1 * dh ! 1 * wBJ ! 3));
         out = out((0, i + 2 * Q) := 0)
     in out)"

definition SWJacobian ::
  "'a buf \<Rightarrow> nat \<Rightarrow> 'a fields \<Rightarrow> 'a outs \<Rightarrow> int \<times> ('a::{zero,plus,minus,uminus,times}) outs"
where
  "SWJacobian context Q inp out = (0, qloop Q (SWJacobian_point context Q inp) out)"

subsection \<open>\<^verbatim>\<open>densitycurrent.h\<close>\<close>

text \<open>
  \<^verbatim>\<open>pow\<close> of the C library, on the reals: repeated multiplication for an integral
  exponent, \<open>exp (y * ln x)\<close> otherwise (which is meaningful for a positive base only).
\<close>

definition pow :: "real \<Rightarrow> real \<Rightarrow> real" where
  "pow x y =
    (if y = of_int \<lfloor>y\<rfloor>
     then (if 0 \<le> y then x ^ nat \<lfloor>y\<rfloor> else 1 / x ^ nat \<lfloor>- y\<rfloor>)
     else x powr y)"

text \<open>
  The loop body of \<^verbatim>\<open>ICsDC\<close>. \<^verbatim>\<open>X\<close>, \<^verbatim>\<open>q0\<close> and \<^verbatim>\<open>coords\<close> are viewed as
  \<^verbatim>\<open>CeedScalar (*)[Q]\<close>, so \<^verbatim>\<open>X[c][i]\<close> is the cell \<open>c * Q + i\<close>.
\<close>

definition ICsDC_point :: "real buf \<Rightarrow> nat \<Rightarrow> real fields \<Rightarrow> nat \<Rightarrow> real outs \<Rightarrow> real outs" where
  "ICsDC_point context Q inp i out =
    (let X = inp 0;
         theta0 = context 0;
         thetaC = context 1;
         P0 = context 2;
         N = context 3;
         cv = context 4;
         cp = context 5;
         Rd = context 6;
         g = context 7;
         rc = context 8;
         lx = context 9;
         ly = context 10;
         lz = context 11;
         periodic = (\<lambda>n. context (12 + n));
         tol = 1 / 10 ^ 14;
         center = [0.5 * lx, 0.5 * ly, 0.5 * lz];
         x = X (0 * Q + i);
         y = X (1 * Q + i);
         z = X (2 * Q + i);
         r = sqrt (pow (x - center ! 0) 2 + pow (y - center ! 1) 2 + pow (z - center ! 2) 2);
         deltatheta = (if r \<le> rc then thetaC * (1 + cos (M_PI * r / rc)) / 2 else 0);
         theta = theta0 * exp (N * N * z / g) + deltatheta;
         Pi = 1 + g * g * (exp (- N * N * z / g) - 1) / (cp * theta0 * N * N);
         rho = P0 * pow Pi (cv / Rd) / (Rd * theta);
         out = out((0, 0 * Q + i) := rho);
         out = out((0, 1 * Q + i) := 0);
         out = out((0, 2 * Q + i) := 0);
         out = out((0, 3 * Q + i) := 0);
         out = out((0, 4 * Q + i) := rho * (cv * theta * Pi));
         out = (if (periodic 0 = 0 \<and> (\<bar>x - 0\<bar> < tol \<or> \<bar>x - lx\<bar> < tol))
                 \<or> (periodic 1 = 0 \<and> (\<bar>y - 0\<bar> < tol \<or> \<bar>y - ly\<bar> < tol))
                 \<or> (periodic 2 = 0 \<and> (\<bar>z - 0\<bar> < tol \<or> \<bar>z - lz\<bar> < tol))
                then (let out = out((0, 1 * Q + i) := 0);
                          out = out((0, 2 * Q + i) := 0);
                          out = out((0, 3 * Q + i) := 0)
                      in out)
                else out);
         out = out((1, 0 * Q + i) := x);
         out = out((1, 1 * Q + i) := y);
         out = out((1, 2 * Q + i) := z)
     in out)"

definition ICsDC :: "real buf \<Rightarrow> nat \<Rightarrow> real fields \<Rightarrow> real outs \<Rightarrow> int \<times> real outs" where
  "ICsDC context Q inp out = (0, qloop Q (ICsDC_point context Q inp) out)"

text \<open>
  The local arrays of \<^verbatim>\<open>DC\<close> that the loop nest over \<^verbatim>\<open>j\<close>, \<^verbatim>\<open>k\<close>, \<^verbatim>\<open>l\<close>
  fills. They are declared without an initialiser, so the contents they have at their
  declaration are not determined by the program: the model takes them as an argument.
\<close>

record DC_grads =
  du :: "nat \<Rightarrow> nat \<Rightarrow> real"
  drhodx :: "nat \<Rightarrow> real"
  dEdx :: "nat \<Rightarrow> real"
  dUdx :: "nat \<Rightarrow> nat \<Rightarrow> real"
  dudx :: "nat \<Rightarrow> nat \<Rightarrow> real"
  dXdxdXdxT :: "nat \<Rightarrow> nat \<Rightarrow> real"

text \<open>\<^verbatim>\<open>a[j][k] = x\<close> on a local two-dimensional array.\<close>

definition upd2 :: "(nat \<Rightarrow> nat \<Rightarrow> 'a) \<Rightarrow> nat \<Rightarrow> nat \<Rightarrow> 'a \<Rightarrow> (nat \<Rightarrow> nat \<Rightarrow> 'a)" where
  "upd2 a j k x = a(j := (a j)(k := x))"

text \<open>
  The innermost loop body:
  \<^verbatim>\<open>dUdx[j][k] += dU[j][l] * dXdx[l][k];
  dudx[j][k] += du[j][l] * dXdx[l][k];
  dXdxdXdxT[j][k] += dXdx[j][l]*dXdx[k][l];\<close>
  It reads \<^verbatim>\<open>du[j][l]\<close> for every \<open>l\<close>, while the enclosing \<^verbatim>\<open>k\<close> iteration has
  assigned \<^verbatim>\<open>du[j][k]\<close> only.
\<close>

definition DC_grad_l :: "real list list \<Rightarrow> real list list \<Rightarrow> nat \<Rightarrow> nat \<Rightarrow> nat \<Rightarrow> DC_grads \<Rightarrow> DC_grads" where
  "DC_grad_l dU dXdx j k l s =
    (let s = s\<lparr>dUdx := upd2 (dUdx s) j k (dUdx s j k + dU ! j ! l * dXdx ! l ! k)\<rparr>;
         s = s\<lparr>dudx := upd2 (dudx s) j k (dudx s j k + du s j l * dXdx ! l ! k)\<rparr>;
         s = s\<lparr>dXdxdXdxT := upd2 (dXdxdXdxT s) j k (dXdxdXdxT s j k + dXdx ! j ! l * dXdx ! k ! l)\<rparr>
     in s)"

definition DC_grad_k ::
  "real \<Rightarrow> real list \<Rightarrow> real list \<Rightarrow> real list list \<Rightarrow> real list \<Rightarrow> real list list
   \<Rightarrow> nat \<Rightarrow> nat \<Rightarrow> DC_grads \<Rightarrow> DC_grads"
where
  "DC_grad_k rho u drho dU dE dXdx j k s =
    (let s = s\<lparr>du := upd2 (du s) j k ((dU ! j ! k - drho ! k * u ! j) / rho)\<rparr>;
         s = s\<lparr>drhodx := (drhodx s)(j := drhodx s j + drho ! k * dXdx ! k ! j)\<rparr>;
         s = s\<lparr>dEdx := (dEdx s)(j := dEdx s j + dE ! k * dXdx ! k ! j)\<rparr>;
         s = s\<lparr>dUdx := upd2 (dUdx s) j k 0\<rparr>;
         s = s\<lparr>dudx := upd2 (dudx s) j k 0\<rparr>;
         s = s\<lparr>dXdxdXdxT := upd2 (dXdxdXdxT s) j k 0\<rparr>
     in fold (DC_grad_l dU dXdx j k) [0..<3] s)"

definition DC_grad_j ::
  "real \<Rightarrow> real list \<Rightarrow> real list \<Rightarrow> real list list \<Rightarrow> real list \<Rightarrow> real list list
   \<Rightarrow> nat \<Rightarrow> DC_grads \<Rightarrow> DC_grads"
where
  "DC_grad_j rho u drho dU dE dXdx j s =
    (let s = s\<lparr>drhodx := (drhodx s)(j := 0)\<rparr>;
         s = s\<lparr>dEdx := (dEdx s)(j := 0)\<rparr>
     in fold (DC_grad_k rho u drho dU dE dXdx j) [0..<3] s)"

definition DC_grad ::
  "real \<Rightarrow> real list \<Rightarrow> real list \<Rightarrow> real list list \<Rightarrow> real list \<Rightarrow> real list list
   \<Rightarrow> DC_grads \<Rightarrow> DC_grads"
where
  "DC_grad rho u drho dU dE dXdx s = fold (DC_grad_j rho u drho dU dE dXdx) [0..<3] s"

text \<open>
  The initialiser of \<^verbatim>\<open>Stab_Conv[5][3]\<close>, \<^verbatim>\<open>Ai^T * Tau * Aj * q,j\<close>, as the source
  writes it, with \<^verbatim>\<open>a[m][n]\<close> written \<open>a ! m ! n\<close>.
\<close>

definition DC_Stab_Conv ::
  "real \<Rightarrow> real \<Rightarrow> real \<Rightarrow> real \<Rightarrow> real \<Rightarrow> real \<Rightarrow> real
   \<Rightarrow> real list \<Rightarrow> real list \<Rightarrow> real list list \<Rightarrow> real list \<Rightarrow> real list list"
where
  "DC_Stab_Conv TauC TauM TauE Rd cv ke E u drho dU dE =
     [[TauM * (u ! 0 * u ! 0 - (Rd * ke) / cv) * (drho ! 0 * (u ! 0 * u ! 0 - (Rd * ke) / cv) - dU ! 0 ! 2 * u ! 2 -
     dU ! 1 ! 1 * u ! 0 - dU ! 2 ! 2 * u ! 0 - dU ! 0 ! 1 * u ! 1 + dU ! 0 ! 0 * u ! 0 * (Rd / cv - 2) + drho ! 1 * u ! 0 * u ! 1 +
     drho ! 2 * u ! 0 * u ! 2 - (Rd * dE ! 0) / cv + (Rd * dU ! 1 ! 0 * u ! 1) / cv + (Rd * dU ! 2 ! 0 * u ! 2) / cv) +
     TauM * u ! 0 * u ! 1 * (drho ! 1 * (u ! 1 * u ! 1 - (Rd * ke) / cv) - dU ! 1 ! 0 * u ! 0 - dU ! 1 ! 2 * u ! 2 - dU ! 2 ! 2 * u ! 1 -
     dU ! 0 ! 0 * u ! 1 + dU ! 1 ! 1 * u ! 1 * (Rd / cv - 2) + drho ! 0 * u ! 0 * u ! 1 + drho ! 2 * u ! 1 * u ! 2 - (Rd * dE ! 1) / cv +
     (Rd * dU ! 0 ! 1 * u ! 0) / cv + (Rd * dU ! 2 ! 1 * u ! 2) / cv) + TauM * u ! 0 * u ! 2 * (drho ! 2 * (u ! 2 * u ! 2 -
     (Rd * ke) / cv) - dU ! 1 ! 1 * u ! 2 - dU ! 2 ! 0 * u ! 0 - dU ! 2 ! 1 * u ! 1 - dU ! 0 ! 0 * u ! 2 + dU ! 2 ! 2 * u ! 2 * (Rd / cv - 2) +
     drho ! 0 * u ! 0 * u ! 2 + drho ! 1 * u ! 1 * u ! 2 - (Rd * dE ! 2) / cv + (Rd * dU ! 0 ! 2 * u ! 0) / cv + (Rd * dU ! 1 ! 2 * u ! 1) / cv) +
     TauE * u ! 0 * (E * (Rd / cv + 1) - (2 * Rd * ke) / cv) * (drho ! 0 * u ! 0 * (E * (Rd / cv + 1) - (2 * Rd * ke) / cv) -
     dU ! 1 ! 1 * (E * (Rd / cv + 1) - (Rd * (u ! 1 * u ! 1 + ke)) / cv) - dU ! 2 ! 2 * (E * (Rd / cv + 1) -
     (Rd * (u ! 2 * u ! 2 + ke)) / cv) - dE ! 0 * u ! 0 * (Rd / cv + 1) - dE ! 1 * u ! 1 * (Rd / cv + 1) - dE ! 2 * u ! 2 * (Rd / cv + 1) -
     dU ! 0 ! 0 * (E * (Rd / cv + 1) - (Rd * (u ! 0 * u ! 0 + ke)) / cv) + drho ! 1 * u ! 1 * (E * (Rd / cv + 1) - (2 * Rd * ke) / cv) +
     drho ! 2 * u ! 2 * (E * (Rd / cv + 1) - (2 * Rd * ke) / cv) + (Rd * dU ! 0 ! 1 * u ! 0 * u ! 1) / cv + (Rd * dU ! 0 ! 2 * u ! 0 * u ! 2) / cv +
     (Rd * dU ! 1 ! 0 * u ! 0 * u ! 1) / cv + (Rd * dU ! 1 ! 2 * u ! 1 * u ! 2) / cv + (Rd * dU ! 2 ! 0 * u ! 0 * u ! 2) / cv +
     (Rd * dU ! 2 ! 1 * u ! 1 * u ! 2) / cv),

     TauM * (u ! 1 * u ! 1 - (Rd * ke) / cv) * (drho ! 1 * (u ! 1 * u ! 1 - (Rd * ke) / cv) - dU ! 1 ! 0 * u ! 0 - dU ! 1 ! 2 * u ! 2 -
     dU ! 2 ! 2 * u ! 1 - dU ! 0 ! 0 * u ! 1 + dU ! 1 ! 1 * u ! 1 * (Rd / cv - 2) + drho ! 0 * u ! 0 * u ! 1 + drho ! 2 * u ! 1 * u ! 2 -
     (Rd * dE ! 1) / cv + (Rd * dU ! 0 ! 1 * u ! 0) / cv + (Rd * dU ! 2 ! 1 * u ! 2) / cv) + TauM * u ! 0 * u ! 1 * (drho ! 0 * (u ! 0 * u ! 0 -
     (Rd * ke) / cv) - dU ! 0 ! 2 * u ! 2 - dU ! 1 ! 1 * u ! 0 - dU ! 2 ! 2 * u ! 0 - dU ! 0 ! 1 * u ! 1 + dU ! 0 ! 0 * u ! 0 * (Rd / cv - 2) +
     drho ! 1 * u ! 0 * u ! 1 + drho ! 2 * u ! 0 * u ! 2 - (Rd * dE ! 0) / cv + (Rd * dU ! 1 ! 0 * u ! 1) / cv + (Rd * dU ! 2 ! 0 * u ! 2) / cv) +
     TauM * u ! 1 * u ! 2 * (drho ! 2 * (u ! 2 * u ! 2 - (Rd * ke) / cv) - dU ! 1 ! 1 * u ! 2 - dU ! 2 ! 0 * u ! 0 - dU ! 2 ! 1 * u ! 1 -
     dU ! 0 ! 0 * u ! 2 + dU ! 2 ! 2 * u ! 2 * (Rd / cv - 2) + drho ! 0 * u ! 0 * u ! 2 + drho ! 1 * u ! 1 * u ! 2 - (Rd * dE ! 2) / cv +
     (Rd * dU ! 0 ! 2 * u ! 0) / cv + (Rd * dU ! 1 ! 2 * u ! 1) / cv) + TauE * u ! 1 * (E * (Rd / cv + 1) -
     (2 * Rd * ke) / cv) * (drho ! 0 * u ! 0 * (E * (Rd / cv + 1) - (2 * Rd * ke) / cv) - dU ! 1 ! 1 * (E * (Rd / cv + 1) -
     (Rd * (u ! 1 * u ! 1 + ke)) / cv) - dU ! 2 ! 2 * (E * (Rd / cv + 1) - (Rd * (u ! 2 * u ! 2 + ke)) / cv) - dE ! 0 * u ! 0 * (Rd / cv + 1) -
     dE ! 1 * u ! 1 * (Rd / cv + 1) - dE ! 2 * u ! 2 * (Rd / cv + 1) - dU ! 0 ! 0 * (E * (Rd / cv + 1) - (Rd * (u ! 0 * u ! 0 + ke)) / cv) +
     drho ! 1 * u ! 1 * (E * (Rd / cv + 1) - (2 * Rd * ke) / cv) + drho ! 2 * u ! 2 * (E * (Rd / cv + 1) - (2 * Rd * ke) / cv) +
     (Rd * dU ! 0 ! 1 * u ! 0 * u ! 1) / cv + (Rd * dU ! 0 ! 2 * u ! 0 * u ! 2) / cv + (Rd * dU ! 1 ! 0 * u ! 0 * u ! 1) / cv +
     (Rd * dU ! 1 ! 2 * u ! 1 * u ! 2) / cv + (Rd * dU ! 2 ! 0 * u ! 0 * u ! 2) / cv + (Rd * dU ! 2 ! 1 * u ! 1 * u ! 2) / cv),

     TauM * (u ! 2 * u ! 2 - (Rd * ke) / cv) * (drho ! 2 * (u ! 2 * u ! 2 - (Rd * ke) / cv) - dU ! 1 ! 1 * u ! 2 - dU ! 2 ! 0 * u ! 0 -
     dU ! 2 ! 1 * u ! 1 - dU ! 0 ! 0 * u ! 2 + dU ! 2 ! 2 * u ! 2 * (Rd / cv - 2) + drho ! 0 * u ! 0 * u ! 2 + drho ! 1 * u ! 1 * u ! 2 -
     (Rd * dE ! 2) / cv + (Rd * dU ! 0 ! 2 * u ! 0) / cv + (Rd * dU ! 1 ! 2 * u ! 1) / cv) + TauM * u ! 0 * u ! 2 * (drho ! 0 * (u ! 0 * u ! 0 -
     (Rd * ke) / cv) - dU ! 0 ! 2 * u ! 2 - dU ! 1 ! 1 * u ! 0 - dU ! 2 ! 2 * u ! 0 - dU ! 0 ! 1 * u ! 1 + dU ! 0 ! 0 * u ! 0 * (Rd / cv - 2) +
     drho ! 1 * u ! 0 * u ! 1 + drho ! 2 * u ! 0 * u ! 2 - (Rd * dE ! 0) / cv + (Rd * dU ! 1 ! 0 * u ! 1) / cv + (Rd * dU ! 2 ! 0 * u ! 2) / cv) +
     TauM * u ! 1 * u ! 2 * (drho ! 1 * (u ! 1 * u ! 1 - (Rd * ke) / cv) - dU ! 1 ! 0 * u ! 0 - dU ! 1 ! 2 * u ! 2 - dU ! 2 ! 2 * u ! 1 -
     dU ! 0 ! 0 * u ! 1 + dU ! 1 ! 1 * u ! 1 * (Rd / cv - 2) + drho ! 0 * u ! 0 * u ! 1 + drho ! 2 * u ! 1 * u ! 2 - (Rd * dE ! 1) / cv +
     (Rd * dU ! 0 ! 1 * u ! 0) / cv + (Rd * dU ! 2 ! 1 * u ! 2) / cv) + TauE * u ! 2 * (E * (Rd / cv + 1) -
     (2 * Rd * ke) / cv) * (drho ! 0 * u ! 0 * (E * (Rd / cv + 1) - (2 * Rd * ke) / cv) - dU ! 1 ! 1 * (E * (Rd / cv + 1) -
     (Rd * (u ! 1 * u ! 1 + ke)) / cv) - dU ! 2 ! 2 * (E * (Rd / cv + 1) - (Rd * (u ! 2 * u ! 2 + ke)) / cv) -
     dE ! 0 * u ! 0 * (Rd / cv + 1) - dE ! 1 * u ! 1 * (Rd / cv + 1) - dE ! 2 * u ! 2 * (Rd / cv + 1) - dU ! 0 ! 0 * (E * (Rd / cv + 1) -
     (Rd * (u ! 0 * u ! 0 + ke)) / cv) + drho ! 1 * u ! 1 * (E * (Rd / cv + 1) - (2 * Rd * ke) / cv) + drho ! 2 * u ! 2 * (E * (Rd / cv + 1) -
     (2 * Rd * ke) / cv) + (Rd * dU ! 0 ! 1 * u ! 0 * u ! 1) / cv + (Rd * dU ! 0 ! 2 * u ! 0 * u ! 2) / cv + (Rd * dU ! 1 ! 0 * u ! 0 * u ! 1) / cv +
     (Rd * dU ! 1 ! 2 * u ! 1 * u ! 2) / cv + (Rd * dU ! 2 ! 0 * u ! 0 * u ! 2) / cv + (Rd * dU ! 2 ! 1 * u ! 1 * u ! 2) / cv)],

     [TauC * (dU ! 0 ! 0 + dU ! 1 ! 1 + dU ! 2 ! 2) - TauM * u ! 1 * (drho ! 1 * (u ! 1 * u ! 1 - (Rd * ke) / cv) - dU ! 1 ! 0 * u ! 0 -
     dU ! 1 ! 2 * u ! 2 - dU ! 2 ! 2 * u ! 1 - dU ! 0 ! 0 * u ! 1 + dU ! 1 ! 1 * u ! 1 * (Rd / cv - 2) + drho ! 0 * u ! 0 * u ! 1 +
     drho ! 2 * u ! 1 * u ! 2 - (Rd * dE ! 1) / cv + (Rd * dU ! 0 ! 1 * u ! 0) / cv + (Rd * dU ! 2 ! 1 * u ! 2) / cv) -
     TauM * u ! 2 * (drho ! 2 * (u ! 2 * u ! 2 - (Rd * ke) / cv) - dU ! 1 ! 1 * u ! 2 - dU ! 2 ! 0 * u ! 0 - dU ! 2 ! 1 * u ! 1 - dU ! 0 ! 0 * u ! 2 +
     dU ! 2 ! 2 * u ! 2 * (Rd / cv - 2) + drho ! 0 * u ! 0 * u ! 2 + drho ! 1 * u ! 1 * u ! 2 - (Rd * dE ! 2) / cv + (Rd * dU ! 0 ! 2 * u ! 0) / cv +
     (Rd * dU ! 1 ! 2 * u ! 1) / cv) - TauE * (E * (Rd / cv + 1) - (Rd * (u ! 0 * u ! 0 + ke)) / cv) * (drho ! 0 * u ! 0 * (E * (Rd / cv + 1) -
     (2 * Rd * ke) / cv) - dU ! 1 ! 1 * (E * (Rd / cv + 1) - (Rd * (u ! 1 * u ! 1 + ke)) / cv) - dU ! 2 ! 2 * (E * (Rd / cv + 1) -
     (Rd * (u ! 2 * u ! 2 + ke)) / cv) - dE ! 0 * u ! 0 * (Rd / cv + 1) - dE ! 1 * u ! 1 * (Rd / cv + 1) - dE ! 2 * u ! 2 * (Rd / cv + 1) -
     dU ! 0 ! 0 * (E * (Rd / cv + 1) - (Rd * (u ! 0 * u ! 0 + ke)) / cv) + drho ! 1 * u ! 1 * (E * (Rd / cv + 1) - (2 * Rd * ke) / cv) +
     drho ! 2 * u ! 2 * (E * (Rd / cv + 1) - (2 * Rd * ke) / cv) + (Rd * dU ! 0 ! 1 * u ! 0 * u ! 1) / cv + (Rd * dU ! 0 ! 2 * u ! 0 * u ! 2) / cv +
     (Rd * dU ! 1 ! 0 * u ! 0 * u ! 1) / cv + (Rd * dU ! 1 ! 2 * u ! 1 * u ! 2) / cv + (Rd * dU ! 2 ! 0 * u ! 0 * u ! 2) / cv +
     (Rd * dU ! 2 ! 1 * u ! 1 * u ! 2) / cv) + TauM * u ! 0 * (Rd / cv - 2) * (drho ! 0 * (u ! 0 * u ! 0 - (Rd * ke) / cv) - dU ! 0 ! 2 * u ! 2 -
     dU ! 1 ! 1 * u ! 0 - dU ! 2 ! 2 * u ! 0 - dU ! 0 ! 1 * u ! 1 + dU ! 0 ! 0 * u ! 0 * (Rd / cv - 2) + drho ! 1 * u ! 0 * u ! 1 +
     drho ! 2 * u ! 0 * u ! 2 - (Rd * dE ! 0) / cv + (Rd * dU ! 1 ! 0 * u ! 1) / cv + (Rd * dU ! 2 ! 0 * u ! 2) / cv),

     (Rd * TauM * u ! 0 * (drho ! 1 * (u ! 1 * u ! 1 - (Rd * ke) / cv) - dU ! 1 ! 0 * u ! 0 - dU ! 1 ! 2 * u ! 2 - dU ! 2 ! 2 * u ! 1 - dU ! 0 ! 0 * u ! 1 +
     dU ! 1 ! 1 * u ! 1 * (Rd / cv - 2) + drho ! 0 * u ! 0 * u ! 1 + drho ! 2 * u ! 1 * u ! 2 - (Rd * dE ! 1) / cv + (Rd * dU ! 0 ! 1 * u ! 0) / cv +
     (Rd * dU ! 2 ! 1 * u ! 2) / cv)) / cv - TauM * u ! 1 * (drho ! 0 * (u ! 0 * u ! 0 - (Rd * ke) / cv) - dU ! 0 ! 2 * u ! 2 - dU ! 1 ! 1 * u ! 0 -
     dU ! 2 ! 2 * u ! 0 - dU ! 0 ! 1 * u ! 1 + dU ! 0 ! 0 * u ! 0 * (Rd / cv - 2) + drho ! 1 * u ! 0 * u ! 1 + drho ! 2 * u ! 0 * u ! 2 -
     (Rd * dE ! 0) / cv + (Rd * dU ! 1 ! 0 * u ! 1) / cv + (Rd * dU ! 2 ! 0 * u ! 2) / cv) + (Rd * TauE * u ! 0 * u ! 1 * (drho ! 0 * u ! 0 * (E * (Rd / cv + 1) -
     (2 * Rd * ke) / cv) - dU ! 1 ! 1 * (E * (Rd / cv + 1) - (Rd * (u ! 1 * u ! 1 + ke)) / cv) - dU ! 2 ! 2 * (E * (Rd / cv + 1) -
     (Rd * (u ! 2 * u ! 2 + ke)) / cv) - dE ! 0 * u ! 0 * (Rd / cv + 1) - dE ! 1 * u ! 1 * (Rd / cv + 1) - dE ! 2 * u ! 2 * (Rd / cv + 1) -
     dU ! 0 ! 0 * (E * (Rd / cv + 1) - (Rd * (u ! 0 * u ! 0 + ke)) / cv) + drho ! 1 * u ! 1 * (E * (Rd / cv + 1) - (2 * Rd * ke) / cv) +
     drho ! 2 * u ! 2 * (E * (Rd / cv + 1) - (2 * Rd * ke) / cv) + (Rd * dU ! 0 ! 1 * u ! 0 * u ! 1) / cv + (Rd * dU ! 0 ! 2 * u ! 0 * u ! 2) / cv +
     (Rd * dU ! 1 ! 0 * u ! 0 * u ! 1) / cv + (Rd * dU ! 1 ! 2 * u ! 1 * u ! 2) / cv + (Rd * dU ! 2 ! 0 * u ! 0 * u ! 2) / cv +
     (Rd * dU ! 2 ! 1 * u ! 1 * u ! 2) / cv)) / cv,

     (Rd * TauM * u ! 0 * (drho ! 2 * (u ! 2 * u ! 2 - (Rd * ke) / cv) - dU ! 1 ! 1 * u ! 2 - dU ! 2 ! 0 * u ! 0 - dU ! 2 ! 1 * u ! 1 - dU ! 0 ! 0 * u ! 2 +
     dU ! 2 ! 2 * u ! 2 * (Rd / cv - 2) + drho ! 0 * u ! 0 * u ! 2 + drho ! 1 * u ! 1 * u ! 2 - (Rd * dE ! 2) / cv + (Rd * dU ! 0 ! 2 * u ! 0) / cv +
     (Rd * dU ! 1 ! 2 * u ! 1) / cv)) / cv - TauM * u ! 2 * (drho ! 0 * (u ! 0 * u ! 0 - (Rd * ke) / cv) - dU ! 0 ! 2 * u ! 2 - dU ! 1 ! 1 * u ! 0 -
     dU ! 2 ! 2 * u ! 0 - dU ! 0 ! 1 * u ! 1 + dU ! 0 ! 0 * u ! 0 * (Rd / cv - 2) + drho ! 1 * u ! 0 * u ! 1 + drho ! 2 * u ! 0 * u ! 2 - (Rd * dE ! 0) / cv +
     (Rd * dU ! 1 ! 0 * u ! 1) / cv + (Rd * dU ! 2 ! 0 * u ! 2) / cv) + (Rd * TauE * u ! 0 * u ! 2 * (drho ! 0 * u ! 0 * (E * (Rd / cv + 1) - (2 * Rd * ke) / cv) -
     dU ! 1 ! 1 * (E * (Rd / cv + 1) - (Rd * (u ! 1 * u ! 1 + ke)) / cv) - dU ! 2 ! 2 * (E * (Rd / cv + 1) - (Rd * (u ! 2 * u ! 2 + ke)) / cv) -
     dE ! 0 * u ! 0 * (Rd / cv + 1) - dE ! 1 * u ! 1 * (Rd / cv + 1) - dE ! 2 * u ! 2 * (Rd / cv + 1) - dU ! 0 ! 0 * (E * (Rd / cv + 1) -
     (Rd * (u ! 0 * u ! 0 + ke)) / cv) + drho ! 1 * u ! 1 * (E * (Rd / cv + 1) - (2 * Rd * ke) / cv) + drho ! 2 * u ! 2 * (E * (Rd / cv + 1) -
     (2 * Rd * ke) / cv) + (Rd * dU ! 0 ! 1 * u ! 0 * u ! 1) / cv + (Rd * dU ! 0 ! 2 * u ! 0 * u ! 2) / cv + (Rd * dU ! 1 ! 0 * u ! 0 * u ! 1) / cv +
     (Rd * dU ! 1 ! 2 * u ! 1 * u ! 2) / cv + (Rd * dU ! 2 ! 0 * u ! 0 * u ! 2) / cv + (Rd * dU ! 2 ! 1 * u ! 1 * u ! 2) / cv)) / cv],

     [(Rd * TauM * u ! 1 * (drho ! 0 * (u ! 0 * u ! 0 - (Rd * ke) / cv) - dU ! 0 ! 2 * u ! 2 - dU ! 1 ! 1 * u ! 0 - dU ! 2 ! 2 * u ! 0 - dU ! 0 ! 1 * u ! 1 +
     dU ! 0 ! 0 * u ! 0 * (Rd / cv - 2) + drho ! 1 * u ! 0 * u ! 1 + drho ! 2 * u ! 0 * u ! 2 - (Rd * dE ! 0) / cv + (Rd * dU ! 1 ! 0 * u ! 1) / cv +
     (Rd * dU ! 2 ! 0 * u ! 2) / cv)) / cv - TauM * u ! 0 * (drho ! 1 * (u ! 1 * u ! 1 - (Rd * ke) / cv) - dU ! 1 ! 0 * u ! 0 - dU ! 1 ! 2 * u ! 2 -
     dU ! 2 ! 2 * u ! 1 - dU ! 0 ! 0 * u ! 1 + dU ! 1 ! 1 * u ! 1 * (Rd / cv - 2) + drho ! 0 * u ! 0 * u ! 1 + drho ! 2 * u ! 1 * u ! 2 - (Rd * dE ! 1) / cv +
     (Rd * dU ! 0 ! 1 * u ! 0) / cv + (Rd * dU ! 2 ! 1 * u ! 2) / cv) + (Rd * TauE * u ! 0 * u ! 1 * (drho ! 0 * u ! 0 * (E * (Rd / cv + 1) - (2 * Rd * ke) / cv) -
     dU ! 1 ! 1 * (E * (Rd / cv + 1) - (Rd * (u ! 1 * u ! 1 + ke)) / cv) - dU ! 2 ! 2 * (E * (Rd / cv + 1) - (Rd * (u ! 2 * u ! 2 + ke)) / cv) -
     dE ! 0 * u ! 0 * (Rd / cv + 1) - dE ! 1 * u ! 1 * (Rd / cv + 1) - dE ! 2 * u ! 2 * (Rd / cv + 1) - dU ! 0 ! 0 * (E * (Rd / cv + 1) -
     (Rd * (u ! 0 * u ! 0 + ke)) / cv) + drho ! 1 * u ! 1 * (E * (Rd / cv + 1) - (2 * Rd * ke) / cv) + drho ! 2 * u ! 2 * (E * (Rd / cv + 1) -
     (2 * Rd * ke) / cv) + (Rd * dU ! 0 ! 1 * u ! 0 * u ! 1) / cv + (Rd * dU ! 0 ! 2 * u ! 0 * u ! 2) / cv + (Rd * dU ! 1 ! 0 * u ! 0 * u ! 1) / cv +
     (Rd * dU ! 1 ! 2 * u ! 1 * u ! 2) / cv + (Rd * dU ! 2 ! 0 * u ! 0 * u ! 2) / cv + (Rd * dU ! 2 ! 1 * u ! 1 * u ! 2) / cv)) / cv,

     TauC * (dU ! 0 ! 0 + dU ! 1 ! 1 + dU ! 2 ! 2) - TauM * u ! 0 * (drho ! 0 * (u ! 0 * u ! 0 - (Rd * ke) / cv) - dU ! 0 ! 2 * u ! 2 -
     dU ! 1 ! 1 * u ! 0 - dU ! 2 ! 2 * u ! 0 - dU ! 0 ! 1 * u ! 1 + dU ! 0 ! 0 * u ! 0 * (Rd / cv - 2) + drho ! 1 * u ! 0 * u ! 1 + drho ! 2 * u ! 0 * u ! 2 -
     (Rd * dE ! 0) / cv + (Rd * dU ! 1 ! 0 * u ! 1) / cv + (Rd * dU ! 2 ! 0 * u ! 2) / cv) - TauM * u ! 2 * (drho ! 2 * (u ! 2 * u ! 2 - (Rd * ke) / cv) -
     dU ! 1 ! 1 * u ! 2 - dU ! 2 ! 0 * u ! 0 - dU ! 2 ! 1 * u ! 1 - dU ! 0 ! 0 * u ! 2 + dU ! 2 ! 2 * u ! 2 * (Rd / cv - 2) + drho ! 0 * u ! 0 * u ! 2 +
     drho ! 1 * u ! 1 * u ! 2 - (Rd * dE ! 2) / cv + (Rd * dU ! 0 ! 2 * u ! 0) / cv + (Rd * dU ! 1 ! 2 * u ! 1) / cv) - TauE * (E * (Rd / cv + 1) -
     (Rd * (u ! 1 * u ! 1 + ke)) / cv) * (drho ! 0 * u ! 0 * (E * (Rd / cv + 1) - (2 * Rd * ke) / cv) - dU ! 1 ! 1 * (E * (Rd / cv + 1) -
     (Rd * (u ! 1 * u ! 1 + ke)) / cv) - dU ! 2 ! 2 * (E * (Rd / cv + 1) - (Rd * (u ! 2 * u ! 2 + ke)) / cv) - dE ! 0 * u ! 0 * (Rd / cv + 1) -
     dE ! 1 * u ! 1 * (Rd / cv + 1) - dE ! 2 * u ! 2 * (Rd / cv + 1) - dU ! 0 ! 0 * (E * (Rd / cv + 1) - (Rd * (u ! 0 * u ! 0 + ke)) / cv) +
     drho ! 1 * u ! 1 * (E * (Rd / cv + 1) - (2 * Rd * ke) / cv) + drho ! 2 * u ! 2 * (E * (Rd / cv + 1) - (2 * Rd * ke) / cv) +
     (Rd * dU ! 0 ! 1 * u ! 0 * u ! 1) / cv + (Rd * dU ! 0 ! 2 * u ! 0 * u ! 2) / cv + (Rd * dU ! 1 ! 0 * u ! 0 * u ! 1) / cv + (Rd * dU ! 1 ! 2 * u ! 1 * u ! 2) / cv +
     (Rd * dU ! 2 ! 0 * u ! 0 * u ! 2) / cv + (Rd * dU ! 2 ! 1 * u ! 1 * u ! 2) / cv) + TauM * u ! 1 * (Rd / cv - 2) * (drho ! 1 * (u ! 1 * u ! 1 - (Rd * ke) / cv) -
     dU ! 1 ! 0 * u ! 0 - dU ! 1 ! 2 * u ! 2 - dU ! 2 ! 2 * u ! 1 - dU ! 0 ! 0 * u ! 1 + dU ! 1 ! 1 * u ! 1 * (Rd / cv - 2) + drho ! 0 * u ! 0 * u ! 1 +
     drho ! 2 * u ! 1 * u ! 2 - (Rd * dE ! 1) / cv + (Rd * dU ! 0 ! 1 * u ! 0) / cv + (Rd * dU ! 2 ! 1 * u ! 2) / cv),

     (Rd * TauM * u ! 1 * (drho ! 2 * (u ! 2 * u ! 2 - (Rd * ke) / cv) - dU ! 1 ! 1 * u ! 2 - dU ! 2 ! 0 * u ! 0 - dU ! 2 ! 1 * u ! 1 - dU ! 0 ! 0 * u ! 2 +
     dU ! 2 ! 2 * u ! 2 * (Rd / cv - 2) + drho ! 0 * u ! 0 * u ! 2 + drho ! 1 * u ! 1 * u ! 2 - (Rd * dE ! 2) / cv + (Rd * dU ! 0 ! 2 * u ! 0) / cv +
     (Rd * dU ! 1 ! 2 * u ! 1) / cv)) / cv - TauM * u ! 2 * (drho ! 1 * (u ! 1 * u ! 1 - (Rd * ke) / cv) - dU ! 1 ! 0 * u ! 0 - dU ! 1 ! 2 * u ! 2 -
     dU ! 2 ! 2 * u ! 1 - dU ! 0 ! 0 * u ! 1 + dU ! 1 ! 1 * u ! 1 * (Rd / cv - 2) + drho ! 0 * u ! 0 * u ! 1 + drho ! 2 * u ! 1 * u ! 2 - (Rd * dE ! 1) / cv +
     (Rd * dU ! 0 ! 1 * u ! 0) / cv + (Rd * dU ! 2 ! 1 * u ! 2) / cv) + (Rd * TauE * u ! 1 * u ! 2 * (drho ! 0 * u ! 0 * (E * (Rd / cv + 1) - (2 * Rd * ke) / cv) -
     dU ! 1 ! 1 * (E * (Rd / cv + 1) - (Rd * (u ! 1 * u ! 1 + ke)) / cv) - dU ! 2 ! 2 * (E * (Rd / cv + 1) - (Rd * (u ! 2 * u ! 2 + ke)) / cv) -
     dE ! 0 * u ! 0 * (Rd / cv + 1) - dE ! 1 * u ! 1 * (Rd / cv + 1) - dE ! 2 * u ! 2 * (Rd / cv + 1) - dU ! 0 ! 0 * (E * (Rd / cv + 1) -
     (Rd * (u ! 0 * u ! 0 + ke)) / cv) + drho ! 1 * u ! 1 * (E * (Rd / cv + 1) - (2 * Rd * ke) / cv) + drho ! 2 * u ! 2 * (E * (Rd / cv + 1) -
     (2 * Rd * ke) / cv) + (Rd * dU ! 0 ! 1 * u ! 0 * u ! 1) / cv + (Rd * dU ! 0 ! 2 * u ! 0 * u ! 2) / cv + (Rd * dU ! 1 ! 0 * u ! 0 * u ! 1) / cv +
     (Rd * dU ! 1 ! 2 * u ! 1 * u ! 2) / cv + (Rd * dU ! 2 ! 0 * u ! 0 * u ! 2) / cv + (Rd * dU ! 2 ! 1 * u ! 1 * u ! 2) / cv)) / cv],

     [(Rd * TauM * u ! 2 * (drho ! 0 * (u ! 0 * u ! 0 - (Rd * ke) / cv) - dU ! 0 ! 2 * u ! 2 - dU ! 1 ! 1 * u ! 0 - dU ! 2 ! 2 * u ! 0 - dU ! 0 ! 1 * u ! 1 +
     dU ! 0 ! 0 * u ! 0 * (Rd / cv - 2) + drho ! 1 * u ! 0 * u ! 1 + drho ! 2 * u ! 0 * u ! 2 - (Rd * dE ! 0) / cv + (Rd * dU ! 1 ! 0 * u ! 1) / cv +
     (Rd * dU ! 2 ! 0 * u ! 2) / cv)) / cv - TauM * u ! 0 * (drho ! 2 * (u ! 2 * u ! 2 - (Rd * ke) / cv) - dU ! 1 ! 1 * u ! 2 - dU ! 2 ! 0 * u ! 0 -
     dU ! 2 ! 1 * u ! 1 - dU ! 0 ! 0 * u ! 2 + dU ! 2 ! 2 * u ! 2 * (Rd / cv - 2) + drho ! 0 * u ! 0 * u ! 2 + drho ! 1 * u ! 1 * u ! 2 - (Rd * dE ! 2) / cv +
     (Rd * dU ! 0 ! 2 * u ! 0) / cv + (Rd * dU ! 1 ! 2 * u ! 1) / cv) + (Rd * TauE * u ! 0 * u ! 2 * (drho ! 0 * u ! 0 * (E * (Rd / cv + 1) - (2 * Rd * ke) / cv) -
     dU ! 1 ! 1 * (E * (Rd / cv + 1) - (Rd * (u ! 1 * u ! 1 + ke)) / cv) - dU ! 2 ! 2 * (E * (Rd / cv + 1) - (Rd * (u ! 2 * u ! 2 + ke)) / cv) -
     dE ! 0 * u ! 0 * (Rd / cv + 1) - dE ! 1 * u ! 1 * (Rd / cv + 1) - dE ! 2 * u ! 2 * (Rd / cv + 1) - dU ! 0 ! 0 * (E * (Rd / cv + 1) -
     (Rd * (u ! 0 * u ! 0 + ke)) / cv) + drho ! 1 * u ! 1 * (E * (Rd / cv + 1) - (2 * Rd * ke) / cv) + drho ! 2 * u ! 2 * (E * (Rd / cv + 1) -
     (2 * Rd * ke) / cv) + (Rd * dU ! 0 ! 1 * u ! 0 * u ! 1) / cv + (Rd * dU ! 0 ! 2 * u ! 0 * u ! 2) / cv + (Rd * dU ! 1 ! 0 * u ! 0 * u ! 1) / cv +
     (Rd * dU ! 1 ! 2 * u ! 1 * u ! 2) / cv + (Rd * dU ! 2 ! 0 * u ! 0 * u ! 2) / cv + (Rd * dU ! 2 ! 1 * u ! 1 * u ! 2) / cv)) / cv,

     (Rd * TauM * u ! 2 * (drho ! 1 * (u ! 1 * u ! 1 - (Rd * ke) / cv) - dU ! 1 ! 0 * u ! 0 - dU ! 1 ! 2 * u ! 2 - dU ! 2 ! 2 * u ! 1 - dU ! 0 ! 0 * u ! 1 +
     dU ! 1 ! 1 * u ! 1 * (Rd / cv - 2) + drho ! 0 * u ! 0 * u ! 1 + drho ! 2 * u ! 1 * u ! 2 - (Rd * dE ! 1) / cv + (Rd * dU ! 0 ! 1 * u ! 0) / cv +
     (Rd * dU ! 2 ! 1 * u ! 2) / cv)) / cv - TauM * u ! 1 * (drho ! 2 * (u ! 2 * u ! 2 - (Rd * ke) / cv) - dU ! 1 ! 1 * u ! 2 - dU ! 2 ! 0 * u ! 0 -
     dU ! 2 ! 1 * u ! 1 - dU ! 0 ! 0 * u ! 2 + dU ! 2 ! 2 * u ! 2 * (Rd / cv - 2) + drho ! 0 * u ! 0 * u ! 2 + drho ! 1 * u ! 1 * u ! 2 - (Rd * dE ! 2) / cv +
     (Rd * dU ! 0 ! 2 * u ! 0) / cv + (Rd * dU ! 1 ! 2 * u ! 1) / cv) + (Rd * TauE * u ! 1 * u ! 2 * (drho ! 0 * u ! 0 * (E * (Rd / cv + 1) - (2 * Rd * ke) / cv) -
     dU ! 1 ! 1 * (E * (Rd / cv + 1) - (Rd * (u ! 1 * u ! 1 + ke)) / cv) - dU ! 2 ! 2 * (E * (Rd / cv + 1) - (Rd * (u ! 2 * u ! 2 + ke)) / cv) -
     dE ! 0 * u ! 0 * (Rd / cv + 1) - dE ! 1 * u ! 1 * (Rd / cv + 1) - dE ! 2 * u ! 2 * (Rd / cv + 1) - dU ! 0 ! 0 * (E * (Rd / cv + 1) -
     (Rd * (u ! 0 * u ! 0 + ke)) / cv) + drho ! 1 * u ! 1 * (E * (Rd / cv + 1) - (2 * Rd * ke) / cv) + drho ! 2 * u ! 2 * (E * (Rd / cv + 1) -
     (2 * Rd * ke) / cv) + (Rd * dU ! 0 ! 1 * u ! 0 * u ! 1) / cv + (Rd * dU ! 0 ! 2 * u ! 0 * u ! 2) / cv + (Rd * dU ! 1 ! 0 * u ! 0 * u ! 1) / cv +
     (Rd * dU ! 1 ! 2 * u ! 1 * u ! 2) / cv + (Rd * dU ! 2 ! 0 * u ! 0 * u ! 2) / cv + (Rd * dU ! 2 ! 1 * u ! 1 * u ! 2) / cv)) / cv,

     TauC * (dU ! 0 ! 0 + dU ! 1 ! 1 + dU ! 2 ! 2) - TauM * u ! 0 * (drho ! 0 * (u ! 0 * u ! 0 - (Rd * ke) / cv) - dU ! 0 ! 2 * u ! 2 -
     dU ! 1 ! 1 * u ! 0 - dU ! 2 ! 2 * u ! 0 - dU ! 0 ! 1 * u ! 1 + dU ! 0 ! 0 * u ! 0 * (Rd / cv - 2) + drho ! 1 * u ! 0 * u ! 1 +
     drho ! 2 * u ! 0 * u ! 2 - (Rd * dE ! 0) / cv + (Rd * dU ! 1 ! 0 * u ! 1) / cv + (Rd * dU ! 2 ! 0 * u ! 2) / cv) -
     TauM * u ! 1 * (drho ! 1 * (u ! 1 * u ! 1 - (Rd * ke) / cv) - dU ! 1 ! 0 * u ! 0 - dU ! 1 ! 2 * u ! 2 - dU ! 2 ! 2 * u ! 1 - dU ! 0 ! 0 * u ! 1 +
     dU ! 1 ! 1 * u ! 1 * (Rd / cv - 2) + drho ! 0 * u ! 0 * u ! 1 + drho ! 2 * u ! 1 * u ! 2 - (Rd * dE ! 1) / cv + (Rd * dU ! 0 ! 1 * u ! 0) / cv +
     (Rd * dU ! 2 ! 1 * u ! 2) / cv) - TauE * (E * (Rd / cv + 1) - (Rd * (u ! 2 * u ! 2 + ke)) / cv) * (drho ! 0 * u ! 0 * (E * (Rd / cv + 1) -
     (2 * Rd * ke) / cv) - dU ! 1 ! 1 * (E * (Rd / cv + 1) - (Rd * (u ! 1 * u ! 1 + ke)) / cv) - dU ! 2 ! 2 * (E * (Rd / cv + 1) -
     (Rd * (u ! 2 * u ! 2 + ke)) / cv) - dE ! 0 * u ! 0 * (Rd / cv + 1) - dE ! 1 * u ! 1 * (Rd / cv + 1) - dE ! 2 * u ! 2 * (Rd / cv + 1) -
     dU ! 0 ! 0 * (E * (Rd / cv + 1) - (Rd * (u ! 0 * u ! 0 + ke)) / cv) + drho ! 1 * u ! 1 * (E * (Rd / cv + 1) - (2 * Rd * ke) / cv) +
     drho ! 2 * u ! 2 * (E * (Rd / cv + 1) - (2 * Rd * ke) / cv) + (Rd * dU ! 0 ! 1 * u ! 0 * u ! 1) / cv + (Rd * dU ! 0 ! 2 * u ! 0 * u ! 2) / cv +
     (Rd * dU ! 1 ! 0 * u ! 0 * u ! 1) / cv + (Rd * dU ! 1 ! 2 * u ! 1 * u ! 2) / cv + (Rd * dU ! 2 ! 0 * u ! 0 * u ! 2) / cv +
     (Rd * dU ! 2 ! 1 * u ! 1 * u ! 2) / cv) + TauM * u ! 2 * (Rd / cv - 2) * (drho ! 2 * (u ! 2 * u ! 2 - (Rd * ke) / cv) - dU ! 1 ! 1 * u ! 2 -
     dU ! 2 ! 0 * u ! 0 - dU ! 2 ! 1 * u ! 1 - dU ! 0 ! 0 * u ! 2 + dU ! 2 ! 2 * u ! 2 * (Rd / cv - 2) + drho ! 0 * u ! 0 * u ! 2 +
     drho ! 1 * u ! 1 * u ! 2 - (Rd * dE ! 2) / cv + (Rd * dU ! 0 ! 2 * u ! 0) / cv + (Rd * dU ! 1 ! 2 * u ! 1) / cv)],

     [- (Rd * TauM * (drho ! 0 * (u ! 0 * u ! 0 - (Rd * ke) / cv) - dU ! 0 ! 2 * u ! 2 - dU ! 1 ! 1 * u ! 0 - dU ! 2 ! 2 * u ! 0 - dU ! 0 ! 1 * u ! 1 +
     dU ! 0 ! 0 * u ! 0 * (Rd / cv - 2) + drho ! 1 * u ! 0 * u ! 1 + drho ! 2 * u ! 0 * u ! 2 - (Rd * dE ! 0) / cv + (Rd * dU ! 1 ! 0 * u ! 1) / cv +
     (Rd * dU ! 2 ! 0 * u ! 2) / cv)) / cv - TauE * u ! 0 * (Rd / cv + 1) * (drho ! 0 * u ! 0 * (E * (Rd / cv + 1) - (2 * Rd * ke) / cv) -
     dU ! 1 ! 1 * (E * (Rd / cv + 1) - (Rd * (u ! 1 * u ! 1 + ke)) / cv) - dU ! 2 ! 2 * (E * (Rd / cv + 1) - (Rd * (u ! 2 * u ! 2 + ke)) / cv) -
     dE ! 0 * u ! 0 * (Rd / cv + 1) - dE ! 1 * u ! 1 * (Rd / cv + 1) - dE ! 2 * u ! 2 * (Rd / cv + 1) - dU ! 0 ! 0 * (E * (Rd / cv + 1) -
     (Rd * (u ! 0 * u ! 0 + ke)) / cv) + drho ! 1 * u ! 1 * (E * (Rd / cv + 1) - (2 * Rd * ke) / cv) + drho ! 2 * u ! 2 * (E * (Rd / cv + 1) -
     (2 * Rd * ke) / cv) + (Rd * dU ! 0 ! 1 * u ! 0 * u ! 1) / cv + (Rd * dU ! 0 ! 2 * u ! 0 * u ! 2) / cv + (Rd * dU ! 1 ! 0 * u ! 0 * u ! 1) / cv +
     (Rd * dU ! 1 ! 2 * u ! 1 * u ! 2) / cv + (Rd * dU ! 2 ! 0 * u ! 0 * u ! 2) / cv + (Rd * dU ! 2 ! 1 * u ! 1 * u ! 2) / cv),
     - (Rd * TauM * (drho ! 1 * (u ! 1 * u ! 1 - (Rd * ke) / cv) - dU ! 1 ! 0 * u ! 0 - dU ! 1 ! 2 * u ! 2 - dU ! 2 ! 2 * u ! 1 - dU ! 0 ! 0 * u ! 1 +
     dU ! 1 ! 1 * u ! 1 * (Rd / cv - 2) + drho ! 0 * u ! 0 * u ! 1 + drho ! 2 * u ! 1 * u ! 2 - (Rd * dE ! 1) / cv + (Rd * dU ! 0 ! 1 * u ! 0) / cv +
     (Rd * dU ! 2 ! 1 * u ! 2) / cv)) / cv - TauE * u ! 1 * (Rd / cv + 1) * (drho ! 0 * u ! 0 * (E * (Rd / cv + 1) - (2 * Rd * ke) / cv) -
     dU ! 1 ! 1 * (E * (Rd / cv + 1) - (Rd * (u ! 1 * u ! 1 + ke)) / cv) - dU ! 2 ! 2 * (E * (Rd / cv + 1) - (Rd * (u ! 2 * u ! 2 + ke)) / cv) -
     dE ! 0 * u ! 0 * (Rd / cv + 1) - dE ! 1 * u ! 1 * (Rd / cv + 1) - dE ! 2 * u ! 2 * (Rd / cv + 1) - dU ! 0 ! 0 * (E * (Rd / cv + 1) -
     (Rd * (u ! 0 * u ! 0 + ke)) / cv) + drho ! 1 * u ! 1 * (E * (Rd / cv + 1) - (2 * Rd * ke) / cv) + drho ! 2 * u ! 2 * (E * (Rd / cv + 1) -
     (2 * Rd * ke) / cv) + (Rd * dU ! 0 ! 1 * u ! 0 * u ! 1) / cv + (Rd * dU ! 0 ! 2 * u ! 0 * u ! 2) / cv + (Rd * dU ! 1 ! 0 * u ! 0 * u ! 1) / cv +
     (Rd * dU ! 1 ! 2 * u ! 1 * u ! 2) / cv + (Rd * dU ! 2 ! 0 * u ! 0 * u ! 2) / cv + (Rd * dU ! 2 ! 1 * u ! 1 * u ! 2) / cv),
     - (Rd * TauM * (drho ! 2 * (u ! 2 * u ! 2 - (Rd * ke) / cv) - dU ! 1 ! 1 * u ! 2 - dU ! 2 ! 0 * u ! 0 - dU ! 2 ! 1 * u ! 1 - dU ! 0 ! 0 * u ! 2 +
     dU ! 2 ! 2 * u ! 2 * (Rd / cv - 2) + drho ! 0 * u ! 0 * u ! 2 + drho ! 1 * u ! 1 * u ! 2 - (Rd * dE ! 2) / cv + (Rd * dU ! 0 ! 2 * u ! 0) / cv +
     (Rd * dU ! 1 ! 2 * u ! 1) / cv)) / cv - TauE * u ! 2 * (Rd / cv + 1) * (drho ! 0 * u ! 0 * (E * (Rd / cv + 1) - (2 * Rd * ke) / cv) -
     dU ! 1 ! 1 * (E * (Rd / cv + 1) - (Rd * (u ! 1 * u ! 1 + ke)) / cv) - dU ! 2 ! 2 * (E * (Rd / cv + 1) - (Rd * (u ! 2 * u ! 2 + ke)) / cv) -
     dE ! 0 * u ! 0 * (Rd / cv + 1) - dE ! 1 * u ! 1 * (Rd / cv + 1) - dE ! 2 * u ! 2 * (Rd / cv + 1) - dU ! 0 ! 0 * (E * (Rd / cv + 1) -
     (Rd * (u ! 0 * u ! 0 + ke)) / cv) + drho ! 1 * u ! 1 * (E * (Rd / cv + 1) - (2 * Rd * ke) / cv) + drho ! 2 * u ! 2 * (E * (Rd / cv + 1) -
     (2 * Rd * ke) / cv) + (Rd * dU ! 0 ! 1 * u ! 0 * u ! 1) / cv + (Rd * dU ! 0 ! 2 * u ! 0 * u ! 2) / cv + (Rd * dU ! 1 ! 0 * u ! 0 * u ! 1) / cv +
     (Rd * dU ! 1 ! 2 * u ! 1 * u ! 2) / cv + (Rd * dU ! 2 ! 0 * u ! 0 * u ! 2) / cv + (Rd * dU ! 2 ! 1 * u ! 1 * u ! 2) / cv)]
     ]"

text \<open>
  The statements of \<^verbatim>\<open>DC\<close> after the comment \<^verbatim>\<open>// The Physics\<close>: the stores into
  \<^verbatim>\<open>v\<close> (output field 0) and \<^verbatim>\<open>dv\<close> (output field 1) at point \<open>i\<close>, from the
  locals computed before. The viscous terms are subtracted with \<^verbatim>\<open>-=\<close> from cells
  that the same iteration has just assigned. \<^verbatim>\<open>Stab_Conv\<close> is not used.
\<close>

definition DC_physics ::
  "nat \<Rightarrow> nat \<Rightarrow> real \<Rightarrow> real \<Rightarrow> real list \<Rightarrow> real \<Rightarrow> real \<Rightarrow> real \<Rightarrow> real list list
   \<Rightarrow> real list \<Rightarrow> real list \<Rightarrow> real outs \<Rightarrow> real outs"
where
  "DC_physics Q i wJ rho u E P g dXdx Fu Fe out =
    (let out = fold (\<lambda>j out.
                 out((1, (j * 5 + 0) * Q + i) :=
                   wJ * (rho * u ! 0 * dXdx ! j ! 0 + rho * u ! 1 * dXdx ! j ! 1
                         + rho * u ! 2 * dXdx ! j ! 2))) [0..<3] out;
         out = out((0, 0 * Q + i) := 0);
         out = fold (\<lambda>j. fold (\<lambda>k out.
                 out((1, (k * 5 + (j + 1)) * Q + i) :=
                   wJ * ((rho * u ! j * u ! 0 + (if j = 0 then P else 0)) * dXdx ! k ! 0
                         + (rho * u ! j * u ! 1 + (if j = 1 then P else 0)) * dXdx ! k ! 1
                         + (rho * u ! j * u ! 2 + (if j = 2 then P else 0)) * dXdx ! k ! 2)))
                 [0..<3]) [0..<3] out;
         Fuviscidx = [[0, 1, 2], [1, 3, 4], [2, 4, 5 :: nat]];
         out = fold (\<lambda>j. fold (\<lambda>k out.
                 out((1, (k * 5 + (j + 1)) * Q + i) :=
                   out (1, (k * 5 + (j + 1)) * Q + i)
                   - wJ * (Fu ! (Fuviscidx ! j ! 0) * dXdx ! k ! 0
                           + Fu ! (Fuviscidx ! j ! 1) * dXdx ! k ! 1
                           + Fu ! (Fuviscidx ! j ! 2) * dXdx ! k ! 2)))
                 [0..<3]) [0..<3] out;
         out = out((0, 1 * Q + i) := 0);
         out = out((0, 2 * Q + i) := 0);
         out = out((0, 3 * Q + i) := - rho * g * wJ);
         out = fold (\<lambda>j out.
                 out((1, (j * 5 + 4) * Q + i) :=
                   wJ * (E + P) * (u ! 0 * dXdx ! j ! 0 + u ! 1 * dXdx ! j ! 1
                                   + u ! 2 * dXdx ! j ! 2))) [0..<3] out;
         out = fold (\<lambda>j out.
                 out((1, (j * 5 + 4) * Q + i) :=
                   out (1, (j * 5 + 4) * Q + i)
                   - wJ * (Fe ! 0 * dXdx ! j ! 0 + Fe ! 1 * dXdx ! j ! 1
                           + Fe ! 2 * dXdx ! j ! 2))) [0..<3] out;
         out = out((0, 4 * Q + i) := - rho * g * u ! 2 * wJ)
     in out)"

text \<open>
  One iteration of the quadrature loop of \<^verbatim>\<open>DC\<close>. \<^verbatim>\<open>q\<close>, \<^verbatim>\<open>qdata\<close>, \<^verbatim>\<open>x\<close> and
  \<^verbatim>\<open>v\<close> are viewed as \<^verbatim>\<open>CeedScalar (*)[Q]\<close>, \<^verbatim>\<open>dq\<close> and \<^verbatim>\<open>dv\<close> as
  \<^verbatim>\<open>CeedScalar (*)[5][Q]\<close>: \<^verbatim>\<open>dq[j][c][i]\<close> is the cell \<open>(j * 5 + c) * Q + i\<close>.
  \<open>uninit\<close> is the undetermined content of the local arrays at their declaration.
  The stores are those of \<open>DC_physics\<close>. The result is the value of the local
  \<^verbatim>\<open>Stab_Conv\<close> and the output storage after the iteration.
\<close>

definition DC_iter ::
  "real buf \<Rightarrow> nat \<Rightarrow> real fields \<Rightarrow> DC_grads \<Rightarrow> nat \<Rightarrow> real outs \<Rightarrow> real list list \<times> real outs"
where
  "DC_iter context Q inp uninit i out =
    (let q = inp 0; dq = inp 1; qdata = inp 2; x = inp 3;
         lambda = context 0;
         mu = context 1;
         k = context 2;
         cv = context 3;
         cp = context 4;
         g = context 5;
         Rd = context 6;
         gamma = cp / cv;
         rho = q (0 * Q + i);
         u = [q (1 * Q + i) / rho, q (2 * Q + i) / rho, q (3 * Q + i) / rho];
         E = q (4 * Q + i);
         drho = [dq ((0 * 5 + 0) * Q + i), dq ((1 * 5 + 0) * Q + i), dq ((2 * 5 + 0) * Q + i)];
         dU = [[dq ((0 * 5 + 1) * Q + i), dq ((1 * 5 + 1) * Q + i), dq ((2 * 5 + 1) * Q + i)],
               [dq ((0 * 5 + 2) * Q + i), dq ((1 * 5 + 2) * Q + i), dq ((2 * 5 + 2) * Q + i)],
               [dq ((0 * 5 + 3) * Q + i), dq ((1 * 5 + 3) * Q + i), dq ((2 * 5 + 3) * Q + i)]];
         dE = [dq ((0 * 5 + 4) * Q + i), dq ((1 * 5 + 4) * Q + i), dq ((2 * 5 + 4) * Q + i)];
         wJ = qdata (0 * Q + i);
         dXdx = [[qdata (1 * Q + i), qdata (2 * Q + i), qdata (3 * Q + i)],
                 [qdata (4 * Q + i), qdata (5 * Q + i), qdata (6 * Q + i)],
                 [qdata (7 * Q + i), qdata (8 * Q + i), qdata (9 * Q + i)]];
         s = DC_grad rho u drho dU dE dXdx uninit;
         gradT =
           [(dEdx s 0 / rho - E * drhodx s 0 / (rho * rho)
             - (u ! 0 * dudx s 0 0 + u ! 1 * dudx s 1 0 + u ! 2 * dudx s 2 0)) / cv,
            (dEdx s 1 / rho - E * drhodx s 1 / (rho * rho)
             - (u ! 0 * dudx s 0 1 + u ! 1 * dudx s 1 1 + u ! 2 * dudx s 2 1)) / cv,
            (dEdx s 2 / rho - E * drhodx s 2 / (rho * rho)
             - (u ! 0 * dudx s 0 2 + u ! 1 * dudx s 1 2 + u ! 2 * dudx s 2 2)) / cv];
         Fu = [mu * (dudx s 0 0 * (2 + lambda) + lambda * (dudx s 1 1 + dudx s 2 2)),
               mu * (dudx s 0 1 + dudx s 1 0),
               mu * (dudx s 0 2 + dudx s 2 0),
               mu * (dudx s 1 1 * (2 + lambda) + lambda * (dudx s 0 0 + dudx s 2 2)),
               mu * (dudx s 1 2 + dudx s 2 1),
               mu * (dudx s 2 2 * (2 + lambda) + lambda * (dudx s 0 0 + dudx s 1 1))];
         Fe = [u ! 0 * Fu ! 0 + u ! 1 * Fu ! 1 + u ! 2 * Fu ! 2 + k * gradT ! 0,
               u ! 0 * Fu ! 1 + u ! 1 * Fu ! 3 + u ! 2 * Fu ! 4 + k * gradT ! 1,
               u ! 0 * Fu ! 2 + u ! 1 * Fu ! 4 + u ! 2 * Fu ! 5 + k * gradT ! 2];
         ke = (u ! 0 * u ! 0 + u ! 1 * u ! 1 + u ! 2 * u ! 2) / 2;
         P = (E - ke * rho) * (gamma - 1);
         uX = map (\<lambda>j. dXdx ! j ! 0 * u ! 0 + dXdx ! j ! 1 * u ! 1 + dXdx ! j ! 2 * u ! 2) [0..<3];
         uiujgij = uX ! 0 * uX ! 0 + uX ! 1 * uX ! 1 + uX ! 2 * uX ! 2;
         C1 = (1 :: real);
         C2 = (1 :: real);
         Cc = (1 :: real);
         Ce = (1 :: real);
         f1 = rho * sqrt uiujgij;
         TauC = (Cc * f1) / (8 * (dXdxdXdxT s 0 0 + dXdxdXdxT s 1 1 + dXdxdXdxT s 2 2));
         TauM = 1 / f1;
         TauE = TauM / (Ce * cv);
         Stab_Conv = DC_Stab_Conv TauC TauM TauE Rd cv ke E u drho dU dE;
         out = DC_physics Q i wJ rho u E P g dXdx Fu Fe out
     in (Stab_Conv, out))"

definition DC_point ::
  "real buf \<Rightarrow> nat \<Rightarrow> real fields \<Rightarrow> (nat \<Rightarrow> DC_grads) \<Rightarrow> nat \<Rightarrow> real outs \<Rightarrow> real outs"
where
  "DC_point context Q inp uninit i out = snd (DC_iter context Q inp (uninit i) i out)"

definition DC ::
  "real buf \<Rightarrow> nat \<Rightarrow> real fields \<Rightarrow> (nat \<Rightarrow> DC_grads) \<Rightarrow> real outs \<Rightarrow> int \<times> real outs"
where
  "DC context Q inp uninit out = (0, qloop Q (DC_point context Q inp uninit) out)"

subsection \<open>Write-only, point-disjoint outputs\<close>

text \<open>
  The cells of point \<open>i\<close> in an output field with \<open>n\<close> components: for a QFunction
  with the C signature (field \<open>f\<close>), and for an OKL kernel (flat output array, field at
  offset \<open>off\<close>). Component \<open>c\<close> of point \<open>i\<close> is \<open>Q\<close> cells after component \<open>c - 1\<close>.
\<close>

definition comp_cells :: "nat \<Rightarrow> nat \<Rightarrow> nat \<Rightarrow> nat \<Rightarrow> (nat \<times> nat) set" where
  "comp_cells f n Q i = (\<lambda>c. (f, i + c * Q)) ` {..<n}"

definition flat_cells :: "nat \<Rightarrow> nat \<Rightarrow> nat \<Rightarrow> nat \<Rightarrow> nat set" where
  "flat_cells off n Q i = (\<lambda>c. off + i + c * Q) ` {..<n}"

text \<open>
  For a loop body over output storage and the cells \<open>W i\<close> of each point:
  iteration \<open>i\<close> leaves every cell outside \<open>W i\<close> as it was; what iteration \<open>i\<close> leaves
  in a cell of \<open>W i\<close> does not depend on the storage it started from; the cells of
  different points are disjoint.
\<close>

definition writes_within ::
  "nat \<Rightarrow> (nat \<Rightarrow> ('k \<Rightarrow> 'v) \<Rightarrow> ('k \<Rightarrow> 'v)) \<Rightarrow> (nat \<Rightarrow> 'k set) \<Rightarrow> bool" where
  "writes_within Q body W \<longleftrightarrow> (\<forall>i<Q. \<forall>s a. a \<notin> W i \<longrightarrow> body i s a = s a)"

definition prior_free ::
  "nat \<Rightarrow> (nat \<Rightarrow> ('k \<Rightarrow> 'v) \<Rightarrow> ('k \<Rightarrow> 'v)) \<Rightarrow> (nat \<Rightarrow> 'k set) \<Rightarrow> bool" where
  "prior_free Q body W \<longleftrightarrow> (\<forall>i<Q. \<forall>s s' a. a \<in> W i \<longrightarrow> body i s a = body i s' a)"

definition point_disjoint :: "nat \<Rightarrow> (nat \<Rightarrow> 'k set) \<Rightarrow> bool" where
  "point_disjoint Q W \<longleftrightarrow> (\<forall>i<Q. \<forall>j<Q. i \<noteq> j \<longrightarrow> W i \<inter> W j = {})"

definition write_only_pointwise ::
  "nat \<Rightarrow> (nat \<Rightarrow> ('k \<Rightarrow> 'v) \<Rightarrow> ('k \<Rightarrow> 'v)) \<Rightarrow> (nat \<Rightarrow> 'k set) \<Rightarrow> bool" where
  "write_only_pointwise Q body W \<longleftrightarrow>
     writes_within Q body W \<and> prior_free Q body W \<and> point_disjoint Q W"

subsection \<open>What a call gives back\<close>



subsection \<open>Concrete inputs\<close>

text \<open>
  Input fields, output storage and local-array contents given by finite lists, zero
  elsewhere; used to state facts at concrete inputs.
\<close>

definition fields_of :: "'a list list \<Rightarrow> ('a::zero) fields" where
  "fields_of xss f = buf_of (if f < length xss then xss ! f else [])"

definition outs_of :: "'a list list \<Rightarrow> ('a::zero) outs" where
  "outs_of xss = (\<lambda>(f, a). fields_of xss f a)"

definition grads_const :: "real \<Rightarrow> DC_grads" where
  "grads_const x =
     \<lparr>du = (\<lambda>_ _. x), drhodx = (\<lambda>_. x), dEdx = (\<lambda>_. x),
      dUdx = (\<lambda>_ _. x), dudx = (\<lambda>_ _. x), dXdxdXdxT = (\<lambda>_ _. x)\<rparr>"

section \<open>Properties\<close>

subsection \<open>The loop: what one cell holds after all iterations\<close>

lemma qloop_0: "qloop 0 body s = s"
  by (simp add: qloop_def)

lemma qloop_Suc: "qloop (Suc Q) body s = body Q (qloop Q body s)"
  by (simp add: qloop_def)

text \<open>A cell that no iteration writes keeps its prior contents.\<close>

lemma qloop_untouched:
  assumes "\<And>j s. j < Q \<Longrightarrow> body j s a = s a"
  shows "qloop Q body s a = s a"
  using assms
proof (induction Q)
  case 0
  show ?case by (simp add: qloop_0)
next
  case (Suc Q)
  have "qloop (Suc Q) body s a = qloop Q body s a"
    by (simp add: qloop_Suc Suc.prems)
  also have "\<dots> = s a"
    by (rule Suc.IH) (simp add: Suc.prems)
  finally show ?case .
qed

text \<open>
  A cell written by iteration \<open>i\<close> alone, with a value that does not depend on the
  storage the iteration starts from, holds that value after the loop.
\<close>

lemma qloop_cell:
  assumes i: "i < Q"
    and other: "\<And>j s. j < Q \<Longrightarrow> j \<noteq> i \<Longrightarrow> body j s a = s a"
    and mine: "\<And>s. body i s a = x"
  shows "qloop Q body s a = x"
  using i other
proof (induction Q)
  case 0
  then show ?case by simp
next
  case (Suc Q)
  show ?case
  proof (cases "i = Q")
    case True
    with mine [of "qloop Q body s"] show ?thesis by (simp add: qloop_Suc)
  next
    case False
    with Suc.prems have iQ: "i < Q" by simp
    have "qloop (Suc Q) body s a = qloop Q body s a"
      using False by (simp add: qloop_Suc Suc.prems(2))
    also have "\<dots> = x"
      using iQ by (rule Suc.IH) (simp add: Suc.prems(2))
    finally show ?thesis .
  qed
qed

subsection \<open>Mass setup (\<^verbatim>\<open>f_build_mass\<close>)\<close>

lemma f_build_mass_point_other:
  "a \<noteq> oOf7 0 + i \<Longrightarrow> f_build_mass_point ctx Q iOf7 oOf7 u i v a = v a"
  by (simp add: f_build_mass_point_def Let_def)

lemma f_build_mass_point_11:
  "f_build_mass_dims ctx = 11 \<Longrightarrow>
   f_build_mass_point ctx Q iOf7 oOf7 u i v (oOf7 0 + i) = u (iOf7 0 + i) * u (iOf7 1 + i)"
  by (simp add: f_build_mass_point_def Let_def)

lemma f_build_mass_point_22:
  "f_build_mass_dims ctx = 22 \<Longrightarrow>
   f_build_mass_point ctx Q iOf7 oOf7 u i v (oOf7 0 + i) =
     (u (iOf7 0 + i + Q * 0) * u (iOf7 0 + i + Q * 3)
      - u (iOf7 0 + i + Q * 1) * u (iOf7 0 + i + Q * 2)) * u (iOf7 1 + i)"
  by (simp add: f_build_mass_point_def Let_def)

lemma f_build_mass_point_33:
  "f_build_mass_dims ctx = 33 \<Longrightarrow>
   f_build_mass_point ctx Q iOf7 oOf7 u i v (oOf7 0 + i) =
     (u (iOf7 0 + i + Q * 0)
        * (u (iOf7 0 + i + Q * 4) * u (iOf7 0 + i + Q * 8)
           - u (iOf7 0 + i + Q * 5) * u (iOf7 0 + i + Q * 7))
      - u (iOf7 0 + i + Q * 1)
        * (u (iOf7 0 + i + Q * 3) * u (iOf7 0 + i + Q * 8)
           - u (iOf7 0 + i + Q * 5) * u (iOf7 0 + i + Q * 6))
      + u (iOf7 0 + i + Q * 2)
        * (u (iOf7 0 + i + Q * 3) * u (iOf7 0 + i + Q * 7)
           - u (iOf7 0 + i + Q * 4) * u (iOf7 0 + i + Q * 6)))
     * u (iOf7 1 + i)"
  by (simp add: f_build_mass_point_def Let_def)

text \<open>After the whole loop, the cell of point \<open>i\<close> holds what iteration \<open>i\<close> stored.\<close>

lemma f_build_mass_cell:
  assumes "i < Q" and "\<And>s. f_build_mass_point ctx Q iOf7 oOf7 u i s (oOf7 0 + i) = x"
  shows "f_build_mass ctx Q iOf7 oOf7 u v (oOf7 0 + i) = x"
  unfolding f_build_mass_def
  by (rule qloop_cell [OF assms(1)]) (simp_all add: f_build_mass_point_other assms(2))

text \<open>
  Claim C5. In \<^verbatim>\<open>f_build_mass\<close>, for every point \<open>i < Q\<close>: with tag 11 the output
  is the single Jacobian entry times the quadrature weight; with tag 22 it is the
  determinant \<open>a d - b c\<close> of the four Jacobian entries times the weight; with tag 33 it
  is the cofactor expansion along the first row of the nine Jacobian entries times the
  weight; and for an identity Jacobian the output is the quadrature weight.
  Here \<open>J c = u (iOf7 0 + i + Q * c)\<close> and the weight is \<open>u (iOf7 1 + i)\<close>.
\<close>

theorem f_build_mass_determinants:
  fixes u v :: "('a::comm_ring_1) buf"
  assumes "i < Q"
  shows "(f_build_mass_dims ctx = 11 \<longrightarrow>
            f_build_mass ctx Q iOf7 oOf7 u v (oOf7 0 + i) = u (iOf7 0 + i) * u (iOf7 1 + i))
       \<and> (f_build_mass_dims ctx = 22 \<longrightarrow>
            f_build_mass ctx Q iOf7 oOf7 u v (oOf7 0 + i) =
              (u (iOf7 0 + i + Q * 0) * u (iOf7 0 + i + Q * 3)
               - u (iOf7 0 + i + Q * 1) * u (iOf7 0 + i + Q * 2)) * u (iOf7 1 + i))
       \<and> (f_build_mass_dims ctx = 33 \<longrightarrow>
            f_build_mass ctx Q iOf7 oOf7 u v (oOf7 0 + i) =
              (u (iOf7 0 + i + Q * 0)
                 * (u (iOf7 0 + i + Q * 4) * u (iOf7 0 + i + Q * 8)
                    - u (iOf7 0 + i + Q * 5) * u (iOf7 0 + i + Q * 7))
               - u (iOf7 0 + i + Q * 1)
                 * (u (iOf7 0 + i + Q * 3) * u (iOf7 0 + i + Q * 8)
                    - u (iOf7 0 + i + Q * 5) * u (iOf7 0 + i + Q * 6))
               + u (iOf7 0 + i + Q * 2)
                 * (u (iOf7 0 + i + Q * 3) * u (iOf7 0 + i + Q * 7)
                    - u (iOf7 0 + i + Q * 4) * u (iOf7 0 + i + Q * 6)))
              * u (iOf7 1 + i))
       \<and> (f_build_mass_dims ctx = 11 \<and> u (iOf7 0 + i) = 1 \<longrightarrow>
            f_build_mass ctx Q iOf7 oOf7 u v (oOf7 0 + i) = u (iOf7 1 + i))
       \<and> (f_build_mass_dims ctx = 22
            \<and> u (iOf7 0 + i + Q * 0) = 1 \<and> u (iOf7 0 + i + Q * 1) = 0
            \<and> u (iOf7 0 + i + Q * 2) = 0 \<and> u (iOf7 0 + i + Q * 3) = 1 \<longrightarrow>
            f_build_mass ctx Q iOf7 oOf7 u v (oOf7 0 + i) = u (iOf7 1 + i))
       \<and> (f_build_mass_dims ctx = 33
            \<and> u (iOf7 0 + i + Q * 0) = 1 \<and> u (iOf7 0 + i + Q * 1) = 0
            \<and> u (iOf7 0 + i + Q * 2) = 0 \<and> u (iOf7 0 + i + Q * 3) = 0
            \<and> u (iOf7 0 + i + Q * 4) = 1 \<and> u (iOf7 0 + i + Q * 5) = 0
            \<and> u (iOf7 0 + i + Q * 6) = 0 \<and> u (iOf7 0 + i + Q * 7) = 0
            \<and> u (iOf7 0 + i + Q * 8) = 1 \<longrightarrow>
            f_build_mass ctx Q iOf7 oOf7 u v (oOf7 0 + i) = u (iOf7 1 + i))"
proof -
  have c11: "f_build_mass ctx Q iOf7 oOf7 u v (oOf7 0 + i) = u (iOf7 0 + i) * u (iOf7 1 + i)"
    if "f_build_mass_dims ctx = 11"
    by (rule f_build_mass_cell [OF assms]) (rule f_build_mass_point_11 [OF that])
  have c22: "f_build_mass ctx Q iOf7 oOf7 u v (oOf7 0 + i) =
      (u (iOf7 0 + i + Q * 0) * u (iOf7 0 + i + Q * 3)
       - u (iOf7 0 + i + Q * 1) * u (iOf7 0 + i + Q * 2)) * u (iOf7 1 + i)"
    if "f_build_mass_dims ctx = 22"
    by (rule f_build_mass_cell [OF assms]) (rule f_build_mass_point_22 [OF that])
  have c33: "f_build_mass ctx Q iOf7 oOf7 u v (oOf7 0 + i) =
      (u (iOf7 0 + i + Q * 0)
         * (u (iOf7 0 + i + Q * 4) * u (iOf7 0 + i + Q * 8)
            - u (iOf7 0 + i + Q * 5) * u (iOf7 0 + i + Q * 7))
       - u (iOf7 0 + i + Q * 1)
         * (u (iOf7 0 + i + Q * 3) * u (iOf7 0 + i + Q * 8)
            - u (iOf7 0 + i + Q * 5) * u (iOf7 0 + i + Q * 6))
       + u (iOf7 0 + i + Q * 2)
         * (u (iOf7 0 + i + Q * 3) * u (iOf7 0 + i + Q * 7)
            - u (iOf7 0 + i + Q * 4) * u (iOf7 0 + i + Q * 6)))
      * u (iOf7 1 + i)"
    if "f_build_mass_dims ctx = 33"
    by (rule f_build_mass_cell [OF assms]) (rule f_build_mass_point_33 [OF that])
  show ?thesis
    using c11 c22 c33 by simp
qed

theorem f_build_mass_determinants_witness:
  "f_build_mass (buf_of [1, 1]) 2 (buf_of [0, 2]) (buf_of [0]) (buf_of [1, 4, 5, 7]) (buf_of []) 0
     = (5::int)
   \<and> f_build_mass (buf_of [2, 2]) 1 (buf_of [0, 4]) (buf_of [0]) (buf_of [2, 3, 5, 11, 7]) (buf_of []) 0
     = (49::int)
   \<and> f_build_mass (buf_of [3, 3]) 1 (buf_of [0, 9]) (buf_of [0])
       (buf_of [1, 0, 0, 0, 1, 0, 0, 0, 1, 7]) (buf_of []) 0
     = (7::int)"
  using f_build_mass_determinants
          [of 0 2 "buf_of [1, 1]" "buf_of [0, 2]" "buf_of [0]" "buf_of [1, 4, 5, 7::int]" "buf_of []"]
        f_build_mass_determinants
          [of 0 1 "buf_of [2, 2]" "buf_of [0, 4]" "buf_of [0]" "buf_of [2, 3, 5, 11, 7::int]" "buf_of []"]
        f_build_mass_determinants
          [of 0 1 "buf_of [3, 3]" "buf_of [0, 9]" "buf_of [0]"
              "buf_of [1, 0, 0, 0, 1, 0, 0, 0, 1, 7::int]" "buf_of []"]
  by (simp add: f_build_mass_dims_def buf_of_def)

text \<open>
  Claim C8, as the code has it. For every context block, the tag on which
  \<^verbatim>\<open>f_build_mass\<close> dispatches is \<open>dim + 10 * space_dim\<close> with \<open>dim = ctx[0]\<close> and
  \<open>space_dim = ctx[1]\<close>, in the 32-bit arithmetic of \<^verbatim>\<open>int\<close>: it is the integer
  \<open>dim + 10 * space_dim\<close> whenever that integer is in the range of \<^verbatim>\<open>int\<close>, and that
  integer modulo \<open>2\<^sup>3\<^sup>2\<close> otherwise. The body stores the 1x1, 2x2 or 3x3 formula exactly
  when the tag is 11, 22 or 33, and stores nothing for any other value.
\<close>

theorem f_build_mass_dispatch:
  "f_build_mass_dims ctx = ctx 0 + 10 * ctx 1
   \<and> (- (2 ^ 31) \<le> sint (ctx 0) + 10 * sint (ctx 1) \<and> sint (ctx 0) + 10 * sint (ctx 1) < 2 ^ 31
        \<longrightarrow> sint (f_build_mass_dims ctx) = sint (ctx 0) + 10 * sint (ctx 1))
   \<and> f_build_mass_point ctx Q iOf7 oOf7 u i v =
      (if ctx 0 + 10 * ctx 1 = 11
       then v(oOf7 0 + i := u (iOf7 0 + i) * u (iOf7 1 + i))
       else if ctx 0 + 10 * ctx 1 = 22
       then v(oOf7 0 + i :=
              (u (iOf7 0 + i + Q * 0) * u (iOf7 0 + i + Q * 3)
               - u (iOf7 0 + i + Q * 1) * u (iOf7 0 + i + Q * 2)) * u (iOf7 1 + i))
       else if ctx 0 + 10 * ctx 1 = 33
       then v(oOf7 0 + i :=
              (u (iOf7 0 + i + Q * 0)
                 * (u (iOf7 0 + i + Q * 4) * u (iOf7 0 + i + Q * 8)
                    - u (iOf7 0 + i + Q * 5) * u (iOf7 0 + i + Q * 7))
               - u (iOf7 0 + i + Q * 1)
                 * (u (iOf7 0 + i + Q * 3) * u (iOf7 0 + i + Q * 8)
                    - u (iOf7 0 + i + Q * 5) * u (iOf7 0 + i + Q * 6))
               + u (iOf7 0 + i + Q * 2)
                 * (u (iOf7 0 + i + Q * 3) * u (iOf7 0 + i + Q * 7)
                    - u (iOf7 0 + i + Q * 4) * u (iOf7 0 + i + Q * 6)))
              * u (iOf7 1 + i))
       else v)"
proof (intro conjI impI)
  show "f_build_mass_dims ctx = ctx 0 + 10 * ctx 1"
    by (simp add: f_build_mass_dims_def Let_def)
next
  assume r: "- (2 ^ 31) \<le> sint (ctx 0) + 10 * sint (ctx 1)
             \<and> sint (ctx 0) + 10 * sint (ctx 1) < 2 ^ 31"
  have "sint (f_build_mass_dims ctx)
        = signed_take_bit 31 (sint (ctx 0) + signed_take_bit 31 (10 * sint (ctx 1)))"
    by (simp add: f_build_mass_dims_def Let_def sint_word_ariths)
  also have "\<dots> = signed_take_bit 31 (sint (ctx 0) + 10 * sint (ctx 1))"
    using signed_take_bit_add [of 31 "sint (ctx 0)" "signed_take_bit 31 (10 * sint (ctx 1))"]
          signed_take_bit_add [of 31 "sint (ctx 0)" "10 * sint (ctx 1)"]
    by simp
  also have "\<dots> = sint (ctx 0) + 10 * sint (ctx 1)"
    using r by (simp add: signed_take_bit_int_eq_self)
  finally show "sint (f_build_mass_dims ctx) = sint (ctx 0) + 10 * sint (ctx 1)" .
next
  show "f_build_mass_point ctx Q iOf7 oOf7 u i v =
      (if ctx 0 + 10 * ctx 1 = 11
       then v(oOf7 0 + i := u (iOf7 0 + i) * u (iOf7 1 + i))
       else if ctx 0 + 10 * ctx 1 = 22
       then v(oOf7 0 + i :=
              (u (iOf7 0 + i + Q * 0) * u (iOf7 0 + i + Q * 3)
               - u (iOf7 0 + i + Q * 1) * u (iOf7 0 + i + Q * 2)) * u (iOf7 1 + i))
       else if ctx 0 + 10 * ctx 1 = 33
       then v(oOf7 0 + i :=
              (u (iOf7 0 + i + Q * 0)
                 * (u (iOf7 0 + i + Q * 4) * u (iOf7 0 + i + Q * 8)
                    - u (iOf7 0 + i + Q * 5) * u (iOf7 0 + i + Q * 7))
               - u (iOf7 0 + i + Q * 1)
                 * (u (iOf7 0 + i + Q * 3) * u (iOf7 0 + i + Q * 8)
                    - u (iOf7 0 + i + Q * 5) * u (iOf7 0 + i + Q * 6))
               + u (iOf7 0 + i + Q * 2)
                 * (u (iOf7 0 + i + Q * 3) * u (iOf7 0 + i + Q * 7)
                    - u (iOf7 0 + i + Q * 4) * u (iOf7 0 + i + Q * 6)))
              * u (iOf7 1 + i))
       else v)"
    by (simp add: f_build_mass_point_def f_build_mass_dims_def Let_def)
qed

text \<open>
  At the context \<open>(3, 3)\<close> the tag is the integer 33. At the context \<open>(7, 429496730)\<close> the
  integer \<open>dim + 10 * space_dim\<close> is \<open>2\<^sup>3\<^sup>2 + 11\<close>: the tag is 11 and the 1x1 formula is
  stored.
\<close>

theorem f_build_mass_dispatch_witness:
  "sint (f_build_mass_dims (buf_of [3, 3])) = 33
   \<and> f_build_mass_dims (buf_of [7, 429496730]) = 11
   \<and> f_build_mass_point (buf_of [7, 429496730]) 1 (buf_of [0, 1]) (buf_of [0])
        (buf_of [3, 5 :: int]) 0 (buf_of []) 0 = 15"
  using f_build_mass_dispatch [where ctx = "buf_of [3, 3]", THEN conjunct2, THEN conjunct1]
        f_build_mass_dispatch [where ctx = "buf_of [7, 429496730]", THEN conjunct1]
        f_build_mass_dispatch [where ctx = "buf_of [7, 429496730]" and Q = 1
          and ?iOf7.0 = "buf_of [0, 1]" and ?oOf7.0 = "buf_of [0]" and u = "buf_of [3, 5 :: int]"
          and i = 0 and v = "buf_of []", THEN conjunct2, THEN conjunct2]
  by (simp add: buf_of_def)

text \<open>
  The claim as stated (tag \<open>dim * 10 + space_dim\<close>) fails for a context with
  \<open>dim = 1\<close>, \<open>space_dim = 2\<close>: the code's tag is 21, not 12.
\<close>

theorem f_build_mass_dims_counterexample:
  "f_build_mass_dims (buf_of [1, 2]) = 21
   \<and> f_build_mass_dims (buf_of [1, 2]) \<noteq> buf_of [1, 2] 0 * 10 + buf_of [1, 2] 1"
  by (simp add: f_build_mass_dims_def buf_of_def)

subsection \<open>Mass apply (\<^verbatim>\<open>f_apply_mass\<close>)\<close>

lemma f_apply_mass_point_other:
  "a \<noteq> oOf7 0 + i \<Longrightarrow> f_apply_mass_point ctx Q iOf7 oOf7 inp i out a = out a"
  by (simp add: f_apply_mass_point_def)

text \<open>
  Claim C7. For every \<open>i < Q\<close> the output cell \<open>oOf7[0] + i\<close> holds the one product
  \<open>in[iOf7[1]+i] * in[iOf7[0]+i]\<close>: weight (input field 1) times value (input field 0).
  The scalar type is any type with a multiplication; no law of that multiplication is
  used, so the cell holds the result of exactly one application of it.
\<close>

theorem f_apply_mass_output:
  fixes inp out :: "('a::times) buf"
  assumes "i < Q"
  shows "f_apply_mass ctx Q iOf7 oOf7 inp out (oOf7 0 + i) = inp (iOf7 1 + i) * inp (iOf7 0 + i)"
  unfolding f_apply_mass_def
  by (rule qloop_cell [OF assms]) (simp_all add: f_apply_mass_point_def)

theorem f_apply_mass_output_witness:
  "(1::nat) < 2
   \<and> f_apply_mass () 2 (buf_of [0, 2]) (buf_of [0]) (buf_of [2, 3, 5, 7]) (buf_of []) 1 = (21::real)"
  using f_apply_mass_output
          [of 1 2 "()" "buf_of [0, 2]" "buf_of [0]" "buf_of [2, 3, 5, 7::real]" "buf_of []"]
  by (simp add: buf_of_def)

subsection \<open>Write-only, point-disjoint outputs\<close>

lemma upt_3: "[0..<3] = [0, 1, 2]"
  by (simp add: upt_rec)

lemma cell_eq_iff:
  fixes i j c d Q :: nat
  assumes "i < Q" "j < Q"
  shows "(i + c * Q = j + d * Q) = (i = j \<and> c = d)"
proof
  assume eq: "i + c * Q = j + d * Q"
  then have "(i + c * Q) mod Q = (j + d * Q) mod Q" by simp
  with assms have ij: "i = j" by simp
  with eq have "c * Q = d * Q" by simp
  with assms have "c = d" by simp
  with ij show "i = j \<and> c = d" by simp
qed auto

lemma comp_cells_disjoint:
  "i < Q \<Longrightarrow> j < Q \<Longrightarrow> i \<noteq> j \<Longrightarrow> comp_cells f n Q i \<inter> comp_cells g m Q j = {}"
  by (auto simp: comp_cells_def cell_eq_iff)

lemma flat_cells_disjoint:
  "i < Q \<Longrightarrow> j < Q \<Longrightarrow> i \<noteq> j \<Longrightarrow> flat_cells off n Q i \<inter> flat_cells off m Q j = {}"
  by (auto simp: flat_cells_def cell_eq_iff add.assoc)

text \<open>The cells of a field with \<open>n\<close> components lie in the \<open>n * Q\<close> cells from its offset.\<close>

lemma flat_cells_range:
  assumes "i < Q" "a \<in> flat_cells off n Q i"
  shows "off \<le> a \<and> a < off + n * Q"
proof -
  from assms(2) obtain c where c: "c < n" "a = off + i + c * Q"
    by (auto simp: flat_cells_def)
  from c(1) have "Suc c \<le> n" by simp
  then have "Suc c * Q \<le> n * Q" by (rule mult_le_mono1)
  with assms(1) have "i + c * Q < n * Q" by simp
  with c(2) show ?thesis by simp
qed

lemma flat_cells_apart:
  assumes "i < Q" "j < Q" "off + n * Q \<le> off' \<or> off' + m * Q \<le> off"
  shows "flat_cells off n Q i \<inter> flat_cells off' m Q j = {}"
proof -
  have False if "a \<in> flat_cells off n Q i" "a \<in> flat_cells off' m Q j" for a
    using flat_cells_range [OF assms(1) that(1)] flat_cells_range [OF assms(2) that(2)] assms(3)
    by auto
  then show ?thesis by blast
qed

lemma point_disjoint_comp2:
  "point_disjoint Q (\<lambda>i. comp_cells f n Q i \<union> comp_cells g m Q i)"
  unfolding point_disjoint_def
  by (simp add: Int_Un_distrib Int_Un_distrib2 comp_cells_disjoint)

lemma point_disjoint_comp4:
  "point_disjoint Q (\<lambda>i. comp_cells f n Q i \<union> comp_cells g m Q i
                         \<union> comp_cells f' n' Q i \<union> comp_cells g' m' Q i)"
  unfolding point_disjoint_def
  by (simp add: Int_Un_distrib Int_Un_distrib2 comp_cells_disjoint)

lemma point_disjoint_flat: "point_disjoint Q (flat_cells off n Q)"
  unfolding point_disjoint_def by (simp add: flat_cells_disjoint)

lemma point_disjoint_flat_if: "point_disjoint Q (\<lambda>i. if b then flat_cells off n Q i else {})"
  unfolding point_disjoint_def by (simp add: flat_cells_disjoint)

text \<open>
  What the whole loop leaves: in a cell of point \<open>i\<close>, what iteration \<open>i\<close> stores there,
  whatever the prior contents; in any other cell, the prior contents.
\<close>

lemma write_only_pointwise_cell:
  assumes w: "write_only_pointwise Q body W" and i: "i < Q" and a: "a \<in> W i"
  shows "qloop Q body s a = body i s' a"
proof (rule qloop_cell [OF i])
  fix j t assume j: "j < Q" "j \<noteq> i"
  from w i j a have "a \<notin> W j"
    by (auto simp: write_only_pointwise_def point_disjoint_def)
  with w j show "body j t a = t a"
    by (simp add: write_only_pointwise_def writes_within_def)
next
  fix t
  from w i a show "body i t a = body i s' a"
    by (simp add: write_only_pointwise_def prior_free_def)
qed

lemma write_only_pointwise_outside:
  assumes w: "write_only_pointwise Q body W" and a: "\<And>i. i < Q \<Longrightarrow> a \<notin> W i"
  shows "qloop Q body s a = s a"
  using w a by (intro qloop_untouched) (simp add: write_only_pointwise_def writes_within_def)

text \<open>A second run over the storage the first run left stores the same values.\<close>

lemma write_only_pointwise_idem:
  assumes w: "write_only_pointwise Q body W"
  shows "qloop Q body (qloop Q body s) = qloop Q body s"
proof
  fix a
  show "qloop Q body (qloop Q body s) a = qloop Q body s a"
  proof (cases "\<exists>i<Q. a \<in> W i")
    case True
    then obtain i where i: "i < Q" "a \<in> W i" by blast
    have "qloop Q body (qloop Q body s) a = body i s a"
      by (rule write_only_pointwise_cell [OF w i])
    also have "\<dots> = qloop Q body s a"
      by (rule write_only_pointwise_cell [OF w i, symmetric])
    finally show ?thesis .
  next
    case False
    then have "\<And>i. i < Q \<Longrightarrow> a \<notin> W i" by blast
    then show ?thesis by (simp add: write_only_pointwise_outside [OF w])
  qed
qed

lemmas unroll_cells = comp_cells_def flat_cells_def lessThan_nat_numeral lessThan_Suc lessThan_0
  pred_numeral_simps arith_simps image_insert image_empty Un_iff insert_iff empty_iff
  One_nat_def

lemma f_apply_mass_frame:
  "write_only_pointwise Q (f_apply_mass_point ctx Q iOf7 oOf7 inp) (flat_cells (oOf7 0) 1 Q)"
  unfolding write_only_pointwise_def writes_within_def prior_free_def
  by (simp add: point_disjoint_flat f_apply_mass_point_def flat_cells_def lessThan_Suc)

lemma f_build_mass_frame:
  "write_only_pointwise Q (f_build_mass_point ctx Q iOf7 oOf7 u)
     (\<lambda>i. if f_build_mass_dims ctx \<in> {11, 22, 33} then flat_cells (oOf7 0) 1 Q i else {})"
  unfolding write_only_pointwise_def writes_within_def prior_free_def
  by (simp add: point_disjoint_flat_if f_build_mass_point_def flat_cells_def Let_def lessThan_Suc)

lemma Diff3_writes_within:
  assumes "i < Q" "a \<notin> flat_cells (oOf7 0) 9 Q i"
  shows "Diff3_point ctx Q iOf7 oOf7 inp i out a = out a"
  using assms
  by (simp add: Diff3_point_def flat_cells_def Let_def numeral_eq_Suc lessThan_Suc add_ac)

lemma Diff3_prior_free:
  assumes "i < Q" "a \<in> flat_cells (oOf7 0) 9 Q i"
  shows "Diff3_point ctx Q iOf7 oOf7 inp i out a = Diff3_point ctx Q iOf7 oOf7 inp i out' a"
  using assms(2) assms(1)
  apply (simp only: unroll_cells)
  apply (elim disjE)
  apply (simp_all add: Diff3_point_def Let_def)
  done

lemma Diff3_frame:
  "write_only_pointwise Q (Diff3_point ctx Q iOf7 oOf7 inp)
     (flat_cells (oOf7 0) 9 Q)"
  unfolding write_only_pointwise_def writes_within_def prior_free_def
proof (intro conjI allI impI)
  show "point_disjoint Q (flat_cells (oOf7 0) 9 Q)"
    by (rule point_disjoint_flat)
next
  fix i s a assume "i < Q" "a \<notin> flat_cells (oOf7 0) 9 Q i"
  then show "Diff3_point ctx Q iOf7 oOf7 inp i s a = s a"
    by (rule Diff3_writes_within)
next
  fix i s s' a assume "i < Q" "a \<in> flat_cells (oOf7 0) 9 Q i"
  then show "Diff3_point ctx Q iOf7 oOf7 inp i s a = Diff3_point ctx Q iOf7 oOf7 inp i s' a"
    by (rule Diff3_prior_free)
qed

lemma SWICs_writes_within:
  assumes "i < Q" "a \<notin> comp_cells 0 3 Q i \<union> comp_cells 1 1 Q i \<union> comp_cells 2 1 Q i \<union> comp_cells 3 2 Q i"
  shows "SWICs_point context Q inp i out a = out a"
  using assms
  by (simp add: SWICs_point_def comp_cells_def Let_def numeral_eq_Suc lessThan_Suc add_ac)

lemma SWICs_prior_free:
  assumes "i < Q" "a \<in> comp_cells 0 3 Q i \<union> comp_cells 1 1 Q i \<union> comp_cells 2 1 Q i \<union> comp_cells 3 2 Q i"
  shows "SWICs_point context Q inp i out a = SWICs_point context Q inp i out' a"
  using assms(2) assms(1)
  apply (simp only: unroll_cells)
  apply (elim disjE)
  apply (simp_all add: SWICs_point_def Let_def)
  done

lemma SWICs_frame:
  "write_only_pointwise Q (SWICs_point context Q inp)
     (\<lambda>i. comp_cells 0 3 Q i \<union> comp_cells 1 1 Q i \<union> comp_cells 2 1 Q i \<union> comp_cells 3 2 Q i)"
  unfolding write_only_pointwise_def writes_within_def prior_free_def
proof (intro conjI allI impI)
  show "point_disjoint Q (\<lambda>i. comp_cells 0 3 Q i \<union> comp_cells 1 1 Q i \<union> comp_cells 2 1 Q i \<union> comp_cells 3 2 Q i)"
    by (rule point_disjoint_comp4)
next
  fix i s a assume "i < Q" "a \<notin> comp_cells 0 3 Q i \<union> comp_cells 1 1 Q i \<union> comp_cells 2 1 Q i \<union> comp_cells 3 2 Q i"
  then show "SWICs_point context Q inp i s a = s a"
    by (rule SWICs_writes_within)
next
  fix i s s' a assume "i < Q" "a \<in> comp_cells 0 3 Q i \<union> comp_cells 1 1 Q i \<union> comp_cells 2 1 Q i \<union> comp_cells 3 2 Q i"
  then show "SWICs_point context Q inp i s a = SWICs_point context Q inp i s' a"
    by (rule SWICs_prior_free)
qed

lemma SWExplicit_writes_within:
  assumes "i < Q" "a \<notin> comp_cells 0 3 Q i \<union> comp_cells 1 6 Q i"
  shows "SWExplicit_point context Q inp i out a = out a"
  using assms
  by (simp add: SWExplicit_point_def comp_cells_def Let_def numeral_eq_Suc lessThan_Suc add_ac)

lemma SWExplicit_prior_free:
  assumes "i < Q" "a \<in> comp_cells 0 3 Q i \<union> comp_cells 1 6 Q i"
  shows "SWExplicit_point context Q inp i out a = SWExplicit_point context Q inp i out' a"
  using assms(2) assms(1)
  apply (simp only: unroll_cells)
  apply (elim disjE)
  apply (simp_all add: SWExplicit_point_def Let_def)
  done

lemma SWExplicit_frame:
  "write_only_pointwise Q (SWExplicit_point context Q inp)
     (\<lambda>i. comp_cells 0 3 Q i \<union> comp_cells 1 6 Q i)"
  unfolding write_only_pointwise_def writes_within_def prior_free_def
proof (intro conjI allI impI)
  show "point_disjoint Q (\<lambda>i. comp_cells 0 3 Q i \<union> comp_cells 1 6 Q i)"
    by (rule point_disjoint_comp2)
next
  fix i s a assume "i < Q" "a \<notin> comp_cells 0 3 Q i \<union> comp_cells 1 6 Q i"
  then show "SWExplicit_point context Q inp i s a = s a"
    by (rule SWExplicit_writes_within)
next
  fix i s s' a assume "i < Q" "a \<in> comp_cells 0 3 Q i \<union> comp_cells 1 6 Q i"
  then show "SWExplicit_point context Q inp i s a = SWExplicit_point context Q inp i s' a"
    by (rule SWExplicit_prior_free)
qed

lemma SWImplicit_writes_within:
  assumes "i < Q" "a \<notin> comp_cells 0 3 Q i \<union> comp_cells 1 6 Q i"
  shows "SWImplicit_point context Q inp i out a = out a"
  using assms
  by (simp add: SWImplicit_point_def comp_cells_def Let_def numeral_eq_Suc lessThan_Suc add_ac)

lemma SWImplicit_prior_free:
  assumes "i < Q" "a \<in> comp_cells 0 3 Q i \<union> comp_cells 1 6 Q i"
  shows "SWImplicit_point context Q inp i out a = SWImplicit_point context Q inp i out' a"
  using assms(2) assms(1)
  apply (simp only: unroll_cells)
  apply (elim disjE)
  apply (simp_all add: SWImplicit_point_def Let_def)
  done

lemma SWImplicit_frame:
  "write_only_pointwise Q (SWImplicit_point context Q inp)
     (\<lambda>i. comp_cells 0 3 Q i \<union> comp_cells 1 6 Q i)"
  unfolding write_only_pointwise_def writes_within_def prior_free_def
proof (intro conjI allI impI)
  show "point_disjoint Q (\<lambda>i. comp_cells 0 3 Q i \<union> comp_cells 1 6 Q i)"
    by (rule point_disjoint_comp2)
next
  fix i s a assume "i < Q" "a \<notin> comp_cells 0 3 Q i \<union> comp_cells 1 6 Q i"
  then show "SWImplicit_point context Q inp i s a = s a"
    by (rule SWImplicit_writes_within)
next
  fix i s s' a assume "i < Q" "a \<in> comp_cells 0 3 Q i \<union> comp_cells 1 6 Q i"
  then show "SWImplicit_point context Q inp i s a = SWImplicit_point context Q inp i s' a"
    by (rule SWImplicit_prior_free)
qed

lemma SWJacobian_writes_within:
  assumes "i < Q" "a \<notin> comp_cells 0 3 Q i \<union> comp_cells 1 6 Q i"
  shows "SWJacobian_point context Q inp i out a = out a"
  using assms
  by (simp add: SWJacobian_point_def comp_cells_def Let_def numeral_eq_Suc lessThan_Suc add_ac)

lemma SWJacobian_prior_free:
  assumes "i < Q" "a \<in> comp_cells 0 3 Q i \<union> comp_cells 1 6 Q i"
  shows "SWJacobian_point context Q inp i out a = SWJacobian_point context Q inp i out' a"
  using assms(2) assms(1)
  apply (simp only: unroll_cells)
  apply (elim disjE)
  apply (simp_all add: SWJacobian_point_def Let_def)
  done

lemma SWJacobian_frame:
  "write_only_pointwise Q (SWJacobian_point context Q inp)
     (\<lambda>i. comp_cells 0 3 Q i \<union> comp_cells 1 6 Q i)"
  unfolding write_only_pointwise_def writes_within_def prior_free_def
proof (intro conjI allI impI)
  show "point_disjoint Q (\<lambda>i. comp_cells 0 3 Q i \<union> comp_cells 1 6 Q i)"
    by (rule point_disjoint_comp2)
next
  fix i s a assume "i < Q" "a \<notin> comp_cells 0 3 Q i \<union> comp_cells 1 6 Q i"
  then show "SWJacobian_point context Q inp i s a = s a"
    by (rule SWJacobian_writes_within)
next
  fix i s s' a assume "i < Q" "a \<in> comp_cells 0 3 Q i \<union> comp_cells 1 6 Q i"
  then show "SWJacobian_point context Q inp i s a = SWJacobian_point context Q inp i s' a"
    by (rule SWJacobian_prior_free)
qed

lemma ICsDC_writes_within:
  assumes "i < Q" "a \<notin> comp_cells 0 5 Q i \<union> comp_cells 1 3 Q i"
  shows "ICsDC_point context Q inp i out a = out a"
  using assms
  by (simp add: ICsDC_point_def comp_cells_def Let_def numeral_eq_Suc lessThan_Suc add_ac)

lemma ICsDC_prior_free:
  assumes "i < Q" "a \<in> comp_cells 0 5 Q i \<union> comp_cells 1 3 Q i"
  shows "ICsDC_point context Q inp i out a = ICsDC_point context Q inp i out' a"
  using assms(2) assms(1)
  apply (simp only: unroll_cells)
  apply (elim disjE)
  apply (simp_all add: ICsDC_point_def Let_def)
  done

lemma ICsDC_frame:
  "write_only_pointwise Q (ICsDC_point context Q inp)
     (\<lambda>i. comp_cells 0 5 Q i \<union> comp_cells 1 3 Q i)"
  unfolding write_only_pointwise_def writes_within_def prior_free_def
proof (intro conjI allI impI)
  show "point_disjoint Q (\<lambda>i. comp_cells 0 5 Q i \<union> comp_cells 1 3 Q i)"
    by (rule point_disjoint_comp2)
next
  fix i s a assume "i < Q" "a \<notin> comp_cells 0 5 Q i \<union> comp_cells 1 3 Q i"
  then show "ICsDC_point context Q inp i s a = s a"
    by (rule ICsDC_writes_within)
next
  fix i s s' a assume "i < Q" "a \<in> comp_cells 0 5 Q i \<union> comp_cells 1 3 Q i"
  then show "ICsDC_point context Q inp i s a = ICsDC_point context Q inp i s' a"
    by (rule ICsDC_prior_free)
qed

text \<open>
  The stores of one \<^verbatim>\<open>DC\<close> iteration are \<open>DC_physics\<close> at locals that do not depend
  on the output storage.
\<close>

lemma DC_point_physics:
  "\<exists>wJ rho u E P g dXdx Fu Fe.
     \<forall>out. DC_point context Q inp uninit i out = DC_physics Q i wJ rho u E P g dXdx Fu Fe out"
  unfolding DC_point_def DC_iter_def Let_def snd_conv
  by (intro exI allI) (rule refl)

lemma DC_physics_writes_within:
  assumes "i < Q" "a \<notin> comp_cells 0 5 Q i \<union> comp_cells 1 15 Q i"
  shows "DC_physics Q i wJ rho u E P g dXdx Fu Fe out a = out a"
  using assms
  by (simp add: DC_physics_def comp_cells_def Let_def upt_3 numeral_eq_Suc lessThan_Suc add_ac)

lemma DC_physics_prior_free:
  assumes "i < Q" "a \<in> comp_cells 0 5 Q i \<union> comp_cells 1 15 Q i"
  shows "DC_physics Q i wJ rho u E P g dXdx Fu Fe out a
         = DC_physics Q i wJ rho u E P g dXdx Fu Fe out' a"
  using assms(2) assms(1)
  apply (simp only: unroll_cells)
  apply (elim disjE)
  apply (simp_all add: DC_physics_def Let_def upt_3)
  done

lemma DC_frame:
  "write_only_pointwise Q (DC_point context Q inp uninit)
     (\<lambda>i. comp_cells 0 5 Q i \<union> comp_cells 1 15 Q i)"
  unfolding write_only_pointwise_def writes_within_def prior_free_def
proof (intro conjI allI impI)
  show "point_disjoint Q (\<lambda>i. comp_cells 0 5 Q i \<union> comp_cells 1 15 Q i)"
    by (rule point_disjoint_comp2)
next
  fix i s a assume *: "i < Q" "a \<notin> comp_cells 0 5 Q i \<union> comp_cells 1 15 Q i"
  from DC_point_physics [of "context" Q inp uninit i]
  obtain wJ rho u E P g dXdx Fu Fe where
    eq: "\<And>out. DC_point context Q inp uninit i out = DC_physics Q i wJ rho u E P g dXdx Fu Fe out"
    by blast
  show "DC_point context Q inp uninit i s a = s a"
    unfolding eq by (rule DC_physics_writes_within [OF *])
next
  fix i s s' a assume *: "i < Q" "a \<in> comp_cells 0 5 Q i \<union> comp_cells 1 15 Q i"
  from DC_point_physics [of "context" Q inp uninit i]
  obtain wJ rho u E P g dXdx Fu Fe where
    eq: "\<And>out. DC_point context Q inp uninit i out = DC_physics Q i wJ rho u E P g dXdx Fu Fe out"
    by blast
  show "DC_point context Q inp uninit i s a = DC_point context Q inp uninit i s' a"
    unfolding eq by (rule DC_physics_prior_free [OF *])
qed

lemma SetupDiff3Rhs_writes_within:
  assumes "i < Q" "a \<notin> flat_cells (oOf7 0) 3 Q i \<union> flat_cells (oOf7 1) 3 Q i"
  shows "SetupDiff3Rhs_point ctx Q iOf7 oOf7 inp i out a = out a"
  using assms
  by (simp add: SetupDiff3Rhs_point_def flat_cells_def Let_def numeral_eq_Suc lessThan_Suc add_ac)

text \<open>
  The two output fields of \<^verbatim>\<open>SetupDiff3Rhs\<close> are parts of one array, at the offsets
  \<^verbatim>\<open>oOf7[0]\<close> and \<^verbatim>\<open>oOf7[1]\<close>, with three components each: when they do not overlap,
  the cells of different points are disjoint.
\<close>

lemma SetupDiff3Rhs_point_disjoint:
  assumes "oOf7 0 + 3 * Q \<le> oOf7 1 \<or> oOf7 1 + 3 * Q \<le> oOf7 (0::nat)"
  shows "point_disjoint Q (\<lambda>i. flat_cells (oOf7 0) 3 Q i \<union> flat_cells (oOf7 1) 3 Q i)"
  unfolding point_disjoint_def
proof (intro allI impI)
  fix i j assume ij: "i < Q" "j < Q" "i \<noteq> j"
  from assms have assms': "oOf7 1 + 3 * Q \<le> oOf7 0 \<or> oOf7 0 + 3 * Q \<le> oOf7 1" by blast
  have x: "flat_cells (oOf7 0) 3 Q i \<inter> flat_cells (oOf7 1) 3 Q j = {}"
    by (rule flat_cells_apart [OF ij(1) ij(2) assms])
  have y: "flat_cells (oOf7 1) 3 Q i \<inter> flat_cells (oOf7 0) 3 Q j = {}"
    by (rule flat_cells_apart [OF ij(1) ij(2) assms'])
  show "(flat_cells (oOf7 0) 3 Q i \<union> flat_cells (oOf7 1) 3 Q i)
        \<inter> (flat_cells (oOf7 0) 3 Q j \<union> flat_cells (oOf7 1) 3 Q j) = {}"
    using x y by (simp add: Int_Un_distrib Int_Un_distrib2 flat_cells_disjoint [OF ij])
qed

subsection \<open>Claims on the output storage of all kernels\<close>

lemma prior_freeD:
  "prior_free Q body W \<Longrightarrow> i < Q \<Longrightarrow> a \<in> W i \<Longrightarrow> body i s a = body i s' a"
  by (simp add: prior_free_def)

lemma writes_withinD:
  "writes_within Q body W \<Longrightarrow> i < Q \<Longrightarrow> a \<notin> W i \<Longrightarrow> body i s a = s a"
  by (simp add: writes_within_def)

text \<open>
  In \<^verbatim>\<open>SetupDiff3Rhs\<close>, component 0 of the target and of the right-hand side do not
  depend on the prior contents of the output array, when the two output fields do not
  overlap.
\<close>

lemma SetupDiff3Rhs_prior_free_0:
  assumes "i < Q" "oOf7 0 + 3 * Q \<le> oOf7 1 \<or> oOf7 1 + 3 * Q \<le> oOf7 0"
    and "a \<in> {oOf7 0 + i, oOf7 1 + i}"
  shows "SetupDiff3Rhs_point ctx Q iOf7 oOf7 inp i out a
         = SetupDiff3Rhs_point ctx Q iOf7 oOf7 inp i out' a"
  using assms(3) assms(1) assms(2)
  apply (simp only: insert_iff empty_iff)
  apply (elim disjE)
  apply (simp_all add: SetupDiff3Rhs_point_def Let_def)
  done

text \<open>
  Claim C3, as the code has it. For every kernel and every input, iteration \<open>i\<close> of the
  quadrature loop changes only output cells of point \<open>i\<close>, and the cells of different
  points are disjoint (for \<^verbatim>\<open>SetupDiff3Rhs\<close>, whose two output fields lie in one
  array: when the fields do not overlap). What iteration \<open>i\<close> leaves in the cells it
  stores into does not depend on the prior contents of the output storage, where
  \<^item> \<^verbatim>\<open>f_build_mass\<close> stores into the cell of point \<open>i\<close> when its tag is 11, 22 or 33,
    and into no cell otherwise: the output storage then keeps its prior contents;
  \<^item> \<^verbatim>\<open>DC\<close> reads output cells, with \<^verbatim>\<open>-=\<close>, but only cells that the same
    iteration has assigned before;
  \<^item> for \<^verbatim>\<open>SetupDiff3Rhs\<close> this is stated of component 0 of the target and of the
    right-hand side, and nothing is said of its components 1 and 2.
\<close>

theorem kernels_write_only_pointwise:
  "write_only_pointwise Q (f_apply_mass_point ctx1 Q iOf1 oOf1 inp1) (flat_cells (oOf1 0) 1 Q)
   \<and> write_only_pointwise Q (f_build_mass_point ctx2 Q iOf2 oOf2 inp2)
        (\<lambda>i. if f_build_mass_dims ctx2 \<in> {11, 22, 33} then flat_cells (oOf2 0) 1 Q i else {})
   \<and> write_only_pointwise Q (Diff3_point ctx3 Q iOf3 oOf3 inp3) (flat_cells (oOf3 0) 9 Q)
   \<and> write_only_pointwise Q (SWICs_point ctx4 Q inp4)
        (\<lambda>i. comp_cells 0 3 Q i \<union> comp_cells 1 1 Q i \<union> comp_cells 2 1 Q i \<union> comp_cells 3 2 Q i)
   \<and> write_only_pointwise Q (SWExplicit_point ctx5 Q inp5)
        (\<lambda>i. comp_cells 0 3 Q i \<union> comp_cells 1 6 Q i)
   \<and> write_only_pointwise Q (SWImplicit_point ctx6 Q inp6)
        (\<lambda>i. comp_cells 0 3 Q i \<union> comp_cells 1 6 Q i)
   \<and> write_only_pointwise Q (SWJacobian_point ctx7 Q inp7)
        (\<lambda>i. comp_cells 0 3 Q i \<union> comp_cells 1 6 Q i)
   \<and> write_only_pointwise Q (ICsDC_point ctx8 Q inp8)
        (\<lambda>i. comp_cells 0 5 Q i \<union> comp_cells 1 3 Q i)
   \<and> write_only_pointwise Q (DC_point ctx9 Q inp9 uninit)
        (\<lambda>i. comp_cells 0 5 Q i \<union> comp_cells 1 15 Q i)
   \<and> writes_within Q (SetupDiff3Rhs_point ctx10 Q iOf10 oOf10 inp10)
        (\<lambda>i. flat_cells (oOf10 0) 3 Q i \<union> flat_cells (oOf10 1) 3 Q i)
   \<and> (oOf10 0 + 3 * Q \<le> oOf10 1 \<or> oOf10 1 + 3 * Q \<le> oOf10 0 \<longrightarrow>
        point_disjoint Q (\<lambda>i. flat_cells (oOf10 0) 3 Q i \<union> flat_cells (oOf10 1) 3 Q i)
        \<and> prior_free Q (SetupDiff3Rhs_point ctx10 Q iOf10 oOf10 inp10)
            (\<lambda>i. {oOf10 0 + i, oOf10 1 + i}))"
proof -
  have s1: "writes_within Q (SetupDiff3Rhs_point ctx10 Q iOf10 oOf10 inp10)
        (\<lambda>i. flat_cells (oOf10 0) 3 Q i \<union> flat_cells (oOf10 1) 3 Q i)"
    unfolding writes_within_def
  proof (intro allI impI)
    fix i s a
    assume "i < Q" "a \<notin> flat_cells (oOf10 0) 3 Q i \<union> flat_cells (oOf10 1) 3 Q i"
    then show "SetupDiff3Rhs_point ctx10 Q iOf10 oOf10 inp10 i s a = s a"
      by (rule SetupDiff3Rhs_writes_within)
  qed
  have s2: "prior_free Q (SetupDiff3Rhs_point ctx10 Q iOf10 oOf10 inp10)
          (\<lambda>i. {oOf10 0 + i, oOf10 1 + i})"
    if layout: "oOf10 0 + 3 * Q \<le> oOf10 1 \<or> oOf10 1 + 3 * Q \<le> oOf10 0"
    unfolding prior_free_def
  proof (intro allI impI)
    fix i s s' a
    assume "i < Q" "a \<in> {oOf10 0 + i, oOf10 1 + i}"
    then show "SetupDiff3Rhs_point ctx10 Q iOf10 oOf10 inp10 i s a
               = SetupDiff3Rhs_point ctx10 Q iOf10 oOf10 inp10 i s' a"
      by (rule SetupDiff3Rhs_prior_free_0 [OF _ layout])
  qed
  have s3: "point_disjoint Q (\<lambda>i. flat_cells (oOf10 0) 3 Q i \<union> flat_cells (oOf10 1) 3 Q i)"
    if layout: "oOf10 0 + 3 * Q \<le> oOf10 1 \<or> oOf10 1 + 3 * Q \<le> oOf10 0"
    by (rule SetupDiff3Rhs_point_disjoint [OF layout])
  show ?thesis
    by (intro conjI impI f_apply_mass_frame f_build_mass_frame Diff3_frame SWICs_frame
        SWExplicit_frame SWImplicit_frame SWJacobian_frame ICsDC_frame DC_frame s1 s2 s3)
qed

theorem kernels_write_only_pointwise_witness:
  "DC_point (buf_of [0, 1, 1, 1, 2, 1, 1]) 1
       (fields_of [[1, 1, 0, 0, 1], [], [1, 1, 0, 0, 0, 1, 0, 0, 0, 1], []])
       (\<lambda>_. grads_const 0) 0 (outs_of []) (1, 6)
   = DC_point (buf_of [0, 1, 1, 1, 2, 1, 1]) 1
       (fields_of [[1, 1, 0, 0, 1], [], [1, 1, 0, 0, 0, 1, 0, 0, 0, 1], []])
       (\<lambda>_. grads_const 0) 0 (outs_of [[], [0, 0, 0, 0, 0, 0, 42]]) (1, 6)
   \<and> SetupDiff3Rhs_point () 1 (buf_of [0, 3, 12]) (buf_of [0, 3])
       (buf_of [0, 0, 0, 1, 0, 0, 0, 1, 0, 0, 0, 1, 1]) 0 (buf_of [0, 0, 0, 0, 0, 0, 5]) 6 = 5
   \<and> SetupDiff3Rhs_point () 1 (buf_of [0, 3, 12]) (buf_of [0, 3])
       (buf_of [0, 0, 0, 1, 0, 0, 0, 1, 0, 0, 0, 1, 1]) 0 (buf_of [4, 4, 4, 4, 4, 4]) 3
     = SetupDiff3Rhs_point () 1 (buf_of [0, 3, 12]) (buf_of [0, 3])
       (buf_of [0, 0, 0, 1, 0, 0, 0, 1, 0, 0, 0, 1, 1]) 0 (buf_of []) 3"
proof -
  note T = kernels_write_only_pointwise
    [where Q = 1 and ?ctx9.0 = "buf_of [0, 1, 1, 1, 2, 1, 1]"
       and ?inp9.0 = "fields_of [[1, 1, 0, 0, 1], [], [1, 1, 0, 0, 0, 1, 0, 0, 0, 1], []]"
       and uninit = "\<lambda>_. grads_const 0"
       and ?ctx10.0 = "()" and ?iOf10.0 = "buf_of [0, 3, 12]" and ?oOf10.0 = "buf_of [0, 3]"
       and ?inp10.0 = "buf_of [0, 0, 0, 1, 0, 0, 0, 1, 0, 0, 0, 1, 1]"]
  have dc: "prior_free 1 (DC_point (buf_of [0, 1, 1, 1, 2, 1, 1]) 1
       (fields_of [[1, 1, 0, 0, 1], [], [1, 1, 0, 0, 0, 1, 0, 0, 0, 1], []])
       (\<lambda>_. grads_const 0)) (\<lambda>i. comp_cells 0 5 1 i \<union> comp_cells 1 15 1 i)"
    using T [THEN conjunct2, THEN conjunct2, THEN conjunct2, THEN conjunct2, THEN conjunct2,
             THEN conjunct2, THEN conjunct2, THEN conjunct2, THEN conjunct1]
    by (simp add: write_only_pointwise_def)
  have sd: "writes_within 1 (SetupDiff3Rhs_point () 1 (buf_of [0, 3, 12]) (buf_of [0, 3])
       (buf_of [0, 0, 0, 1, 0, 0, 0, 1, 0, 0, 0, 1, 1]))
       (\<lambda>i. flat_cells (buf_of [0, 3] 0) 3 1 i \<union> flat_cells (buf_of [0, 3] 1) 3 1 i)"
    using T [THEN conjunct2, THEN conjunct2, THEN conjunct2, THEN conjunct2, THEN conjunct2,
             THEN conjunct2, THEN conjunct2, THEN conjunct2, THEN conjunct2, THEN conjunct1]
    by simp
  have sp: "prior_free 1 (SetupDiff3Rhs_point () 1 (buf_of [0, 3, 12]) (buf_of [0, 3])
       (buf_of [0, 0, 0, 1, 0, 0, 0, 1, 0, 0, 0, 1, 1]))
       (\<lambda>i. {buf_of [0, 3] 0 + i, buf_of [0, 3] 1 + i})"
    using T [THEN conjunct2, THEN conjunct2, THEN conjunct2, THEN conjunct2, THEN conjunct2,
             THEN conjunct2, THEN conjunct2, THEN conjunct2, THEN conjunct2, THEN conjunct2]
    by (simp add: buf_of_def)
  have m3: "3 \<in> {buf_of [0, 3] 0 + 0, buf_of [0, 3] 1 + (0::nat)}"
    by (simp add: buf_of_def)
  have m1: "(1, 6) \<in> comp_cells 0 5 1 0 \<union> comp_cells 1 15 1 (0::nat)"
    by (simp add: unroll_cells)
  have m2: "6 \<notin> flat_cells (buf_of [0, 3] 0) 3 1 0 \<union> flat_cells (buf_of [0, 3] 1) 3 1 (0::nat)"
    by (simp add: unroll_cells buf_of_def)
  show ?thesis
    using prior_freeD [OF dc _ m1, of "outs_of []" "outs_of [[], [0, 0, 0, 0, 0, 0, 42]]"]
          writes_withinD [OF sd _ m2, of "buf_of [0, 0, 0, 0, 0, 0, 5]"]
          prior_freeD [OF sp _ m3, of "buf_of [4, 4, 4, 4, 4, 4]" "buf_of []"]
    by (simp add: buf_of_def)
qed

text \<open>
  The claim as stated fails for \<^verbatim>\<open>f_build_mass\<close>: with the context
  \<open>dim = 2\<close>, \<open>space_dim = 3\<close> the tag is 32, no branch stores, and after the call the
  cell of point 0 holds what it held before: 9 for one prior content of the output
  array, 5 for another, the inputs being the same.
\<close>

theorem f_build_mass_prior_contents_counterexample:
  "f_build_mass (buf_of [2, 3]) 1 (buf_of [0, 9]) (buf_of [0])
       (buf_of [1, 0, 0, 0, 1, 0, 0, 0, 1, 7]) (buf_of [9]) 0 = (9::real)
   \<and> f_build_mass (buf_of [2, 3]) 1 (buf_of [0, 9]) (buf_of [0])
       (buf_of [1, 0, 0, 0, 1, 0, 0, 0, 1, 7]) (buf_of [5]) 0 = (5::real)"
  by (simp add: f_build_mass_def qloop_def f_build_mass_point_def f_build_mass_dims_def Let_def
      buf_of_def)

text \<open>
  For the nine other kernels, a second call with the same inputs on the storage the first
  call left stores the same values (for \<^verbatim>\<open>DC\<close>: with the same contents of its
  uninitialised local arrays).
\<close>

lemma other_kernels_idempotent:
  "f_apply_mass ctx1 Q iOf1 oOf1 inp1 (f_apply_mass ctx1 Q iOf1 oOf1 inp1 out1)
     = f_apply_mass ctx1 Q iOf1 oOf1 inp1 out1"
  "f_build_mass ctx2 Q iOf2 oOf2 inp2 (f_build_mass ctx2 Q iOf2 oOf2 inp2 out2)
     = f_build_mass ctx2 Q iOf2 oOf2 inp2 out2"
  "Diff3 ctx3 Q iOf3 oOf3 inp3 (Diff3 ctx3 Q iOf3 oOf3 inp3 out3) = Diff3 ctx3 Q iOf3 oOf3 inp3 out3"
  "snd (SWICs ctx4 Q inp4 (snd (SWICs ctx4 Q inp4 out4))) = snd (SWICs ctx4 Q inp4 out4)"
  "snd (SWExplicit ctx5 Q inp5 (snd (SWExplicit ctx5 Q inp5 out5))) = snd (SWExplicit ctx5 Q inp5 out5)"
  "snd (SWImplicit ctx6 Q inp6 (snd (SWImplicit ctx6 Q inp6 out6))) = snd (SWImplicit ctx6 Q inp6 out6)"
  "snd (SWJacobian ctx7 Q inp7 (snd (SWJacobian ctx7 Q inp7 out7))) = snd (SWJacobian ctx7 Q inp7 out7)"
  "snd (ICsDC ctx8 Q inp8 (snd (ICsDC ctx8 Q inp8 out8))) = snd (ICsDC ctx8 Q inp8 out8)"
  "snd (DC ctx9 Q inp9 uninit (snd (DC ctx9 Q inp9 uninit out9))) = snd (DC ctx9 Q inp9 uninit out9)"
  unfolding f_apply_mass_def f_build_mass_def Diff3_def SWICs_def SWExplicit_def SWImplicit_def
    SWJacobian_def ICsDC_def DC_def snd_conv
  by (rule write_only_pointwise_idem, rule f_apply_mass_frame f_build_mass_frame Diff3_frame
        SWICs_frame SWExplicit_frame SWImplicit_frame SWJacobian_frame ICsDC_frame DC_frame)+

text \<open>
  Claim C4 at a failing input: \<^verbatim>\<open>SetupDiff3Rhs\<close> with \<open>Q = 1\<close>, the point
  \<open>x = (0, 0, 0)\<close>, identity Jacobian, weight 1, and an output array whose cell 3 holds 7.
  The first call leaves 7 in component 1 of the target; a second call on the array the
  first one left stores 0 there.
\<close>

theorem SetupDiff3Rhs_not_idempotent:
  "SetupDiff3Rhs () 1 (buf_of [0, 3, 12]) (buf_of [0, 3])
       (buf_of [0, 0, 0, 1, 0, 0, 0, 1, 0, 0, 0, 1, 1]) (buf_of [0, 0, 0, 7]) 1 = 7
   \<and> SetupDiff3Rhs () 1 (buf_of [0, 3, 12]) (buf_of [0, 3])
       (buf_of [0, 0, 0, 1, 0, 0, 0, 1, 0, 0, 0, 1, 1])
       (SetupDiff3Rhs () 1 (buf_of [0, 3, 12]) (buf_of [0, 3])
          (buf_of [0, 0, 0, 1, 0, 0, 0, 1, 0, 0, 0, 1, 1]) (buf_of [0, 0, 0, 7])) 1 = 0"
  by (simp add: SetupDiff3Rhs_def qloop_def SetupDiff3Rhs_point_def Let_def buf_of_def)

subsection \<open>Status\<close>



subsection \<open>\<^verbatim>\<open>SWExplicit\<close>\<close>

text \<open>
  Claim C10. For every input and every point \<open>i < Q\<close>, \<^verbatim>\<open>SWExplicit\<close> leaves 0 in
  all six components of \<^verbatim>\<open>dv\<close> and in component 2 of \<^verbatim>\<open>v\<close>; components 0 and 1
  of \<^verbatim>\<open>v\<close> hold the two velocity terms.
\<close>

theorem SWExplicit_zero_outputs:
  fixes inp :: "('a::{zero,plus,minus,uminus,times}) fields"
  assumes i: "i < Q"
  shows "(\<forall>c<6. snd (SWExplicit context Q inp out) (1, i + c * Q) = 0)
       \<and> snd (SWExplicit context Q inp out) (0, i + 2 * Q) = 0
       \<and> snd (SWExplicit context Q inp out) (0, i + 0 * Q)
           = - (inp 0 (i + 0 * Q) * inp 1 (i + (0 + 4 * 0) * Q)
                + inp 0 (i + 1 * Q) * inp 1 (i + (0 + 4 * 1) * Q)
                + context 0 * inp 0 (i + 1 * Q))
       \<and> snd (SWExplicit context Q inp out) (0, i + 1 * Q)
           = - (inp 0 (i + 0 * Q) * inp 1 (i + (1 + 4 * 0) * Q)
                + inp 0 (i + 1 * Q) * inp 1 (i + (1 + 4 * 1) * Q)
                - context 0 * inp 0 (i + 0 * Q))"
proof -
  have cell: "snd (SWExplicit context Q inp out) a = SWExplicit_point context Q inp i out a"
    if "a \<in> comp_cells 0 3 Q i \<union> comp_cells 1 6 Q i" for a
    using write_only_pointwise_cell [OF SWExplicit_frame i, of a "context" inp out out] that
    by (simp add: SWExplicit_def)
  have dv: "snd (SWExplicit context Q inp out) (1, i + c * Q) = 0" if "c < 6" for c
  proof -
    from that have "c = 0 \<or> c = 1 \<or> c = 2 \<or> c = 3 \<or> c = 4 \<or> c = 5" by arith
    then have m: "(1, i + c * Q) \<in> comp_cells 0 3 Q i \<union> comp_cells 1 6 Q i"
      by (auto simp: unroll_cells)
    from \<open>c = 0 \<or> c = 1 \<or> c = 2 \<or> c = 3 \<or> c = 4 \<or> c = 5\<close> i
    show ?thesis
      unfolding cell [OF m]
      by (elim disjE) (simp_all add: SWExplicit_point_def Let_def)
  qed
  have m0: "(0, i + 0 * Q) \<in> comp_cells 0 3 Q i \<union> comp_cells 1 6 Q i"
    and m1: "(0, i + 1 * Q) \<in> comp_cells 0 3 Q i \<union> comp_cells 1 6 Q i"
    and m2: "(0, i + 2 * Q) \<in> comp_cells 0 3 Q i \<union> comp_cells 1 6 Q i"
    by (simp_all add: unroll_cells)
  have v2: "snd (SWExplicit context Q inp out) (0, i + 2 * Q) = 0"
    unfolding cell [OF m2] using i by (simp add: SWExplicit_point_def Let_def)
  have v0: "snd (SWExplicit context Q inp out) (0, i + 0 * Q)
           = - (inp 0 (i + 0 * Q) * inp 1 (i + (0 + 4 * 0) * Q)
                + inp 0 (i + 1 * Q) * inp 1 (i + (0 + 4 * 1) * Q)
                + context 0 * inp 0 (i + 1 * Q))"
    unfolding cell [OF m0] using i by (simp add: SWExplicit_point_def Let_def)
  have v1: "snd (SWExplicit context Q inp out) (0, i + 1 * Q)
           = - (inp 0 (i + 0 * Q) * inp 1 (i + (1 + 4 * 0) * Q)
                + inp 0 (i + 1 * Q) * inp 1 (i + (1 + 4 * 1) * Q)
                - context 0 * inp 0 (i + 0 * Q))"
    unfolding cell [OF m1] using i by (simp add: SWExplicit_point_def Let_def)
  from dv v2 v0 v1 show ?thesis by blast
qed

theorem SWExplicit_zero_outputs_witness:
  "snd (SWExplicit (buf_of [2]) 2
         (fields_of [[3, 4, 5, 6, 7, 8], [1, 1, 1, 1, 1, 1, 1, 1, 1, 1, 1, 1], [], []])
         (outs_of [[9, 9, 9, 9, 9, 9], [9, 9, 9, 9, 9, 9, 9, 9, 9, 9, 9, 9]])) (1, 9) = (0::int)
   \<and> snd (SWExplicit (buf_of [2]) 2
         (fields_of [[3, 4, 5, 6, 7, 8], [1, 1, 1, 1, 1, 1, 1, 1, 1, 1, 1, 1], [], []])
         (outs_of [[9, 9, 9, 9, 9, 9], [9, 9, 9, 9, 9, 9, 9, 9, 9, 9, 9, 9]])) (0, 5) = (0::int)
   \<and> snd (SWExplicit (buf_of [2]) 2
         (fields_of [[3, 4, 5, 6, 7, 8], [1, 1, 1, 1, 1, 1, 1, 1, 1, 1, 1, 1], [], []])
         (outs_of [[9, 9, 9, 9, 9, 9], [9, 9, 9, 9, 9, 9, 9, 9, 9, 9, 9, 9]])) (0, 1) = (- 22::int)"
proof -
  have h: "(1::nat) < 2" by simp
  note T = SWExplicit_zero_outputs [OF h, of "buf_of [2::int]"
          "fields_of [[3, 4, 5, 6, 7, 8], [1, 1, 1, 1, 1, 1, 1, 1, 1, 1, 1, 1], [], []]"
          "outs_of [[9, 9, 9, 9, 9, 9], [9, 9, 9, 9, 9, 9, 9, 9, 9, 9, 9, 9]]"]
  from T [THEN conjunct1, rule_format, of 4] T [THEN conjunct2]
  show ?thesis
    by (simp add: fields_of_def buf_of_def)
qed

subsection \<open>\<^verbatim>\<open>DC\<close>: the gradient-test output\<close>

lemmas DC_eval = DC_def DC_point_def DC_iter_def DC_physics_def Let_def fields_of_def buf_of_def
  outs_of_def DC_grad_def DC_grad_j_def DC_grad_k_def DC_grad_l_def upd2_def upt_3 grads_const_def
  qloop_def

text \<open>
  Claim C1 at a failing input: \<open>Q = 1\<close>, context
  \<open>(lambda, mu, k, cv, cp, g, Rd) = (0, 1, 0, 1, 2, 1, 1)\<close>, state
  \<open>(rho, U, E) = (1, (1, 0, 0), 2)\<close>, the one nonzero gradient \<open>dU[0][0] = 1\<close>,
  \<open>wJ = 1\<close>, \<open>dXdx\<close> the identity. The convective speed is 1, the entry
  \<^verbatim>\<open>Stab_Conv[1][0]\<close> is \<open>175/24\<close>, and it becomes \<open>217/24\<close> when \<open>Rd\<close> is 2; the
  fifteen cells of \<^verbatim>\<open>dv\<close> are the same for both, and they are the Galerkin terms alone
  (advective flux minus viscous flux).
\<close>

theorem DC_output_without_stabilization:
  "fst (DC_iter (buf_of [0, 1, 0, 1, 2, 1, 1]) 1
         (fields_of [[1, 1, 0, 0, 2], [0, 1], [1, 1, 0, 0, 0, 1, 0, 0, 0, 1], []])
         (grads_const 0) 0 (outs_of [])) ! 1 ! 0 = 175 / 24
   \<and> fst (DC_iter (buf_of [0, 1, 0, 1, 2, 1, 2]) 1
         (fields_of [[1, 1, 0, 0, 2], [0, 1], [1, 1, 0, 0, 0, 1, 0, 0, 0, 1], []])
         (grads_const 0) 0 (outs_of [])) ! 1 ! 0 = 217 / 24
   \<and> map (snd (DC (buf_of [0, 1, 0, 1, 2, 1, 1]) 1
         (fields_of [[1, 1, 0, 0, 2], [0, 1], [1, 1, 0, 0, 0, 1, 0, 0, 0, 1], []])
         (\<lambda>_. grads_const 0) (outs_of [])))
       [(1, 0), (1, 1), (1, 2), (1, 3), (1, 4), (1, 5), (1, 6), (1, 7), (1, 8), (1, 9),
        (1, 10), (1, 11), (1, 12), (1, 13), (1, 14)]
     = [1, 1 / 2, 0, 0, 3 / 2, 0, 0, 3 / 2, 0, 0, 0, 0, 0, 3 / 2, 0]
   \<and> map (snd (DC (buf_of [0, 1, 0, 1, 2, 1, 2]) 1
         (fields_of [[1, 1, 0, 0, 2], [0, 1], [1, 1, 0, 0, 0, 1, 0, 0, 0, 1], []])
         (\<lambda>_. grads_const 0) (outs_of [])))
       [(1, 0), (1, 1), (1, 2), (1, 3), (1, 4), (1, 5), (1, 6), (1, 7), (1, 8), (1, 9),
        (1, 10), (1, 11), (1, 12), (1, 13), (1, 14)]
     = [1, 1 / 2, 0, 0, 3 / 2, 0, 0, 3 / 2, 0, 0, 0, 0, 0, 3 / 2, 0]"
  by (simp add: DC_eval DC_Stab_Conv_def)

subsection \<open>\<^verbatim>\<open>DC\<close>: state at rest\<close>

text \<open>
  The velocity gradient \<^verbatim>\<open>dudx[j][k]\<close> after the loop nest, for general input: the
  terms with \<open>l > k\<close> multiply the content \<^verbatim>\<open>du[j][l]\<close> had before the loop nest
  assigned it.
\<close>

lemma DC_grad_dudx:
  "dudx (DC_grad rho u drho dU dE dXdx s0) j k =
     (if j < 3 \<and> k < 3
      then 0 + (if 0 \<le> k then (dU ! j ! 0 - drho ! 0 * u ! j) / rho else du s0 j 0) * dXdx ! 0 ! k
             + (if 1 \<le> k then (dU ! j ! 1 - drho ! 1 * u ! j) / rho else du s0 j 1) * dXdx ! 1 ! k
             + (if 2 \<le> k then (dU ! j ! 2 - drho ! 2 * u ! j) / rho else du s0 j 2) * dXdx ! 2 ! k
      else dudx s0 j k)"
proof -
  have "j = 0 \<or> j = 1 \<or> j = 2 \<or> 3 \<le> j" "k = 0 \<or> k = 1 \<or> k = 2 \<or> 3 \<le> k" by arith+
  then show ?thesis
    by (elim disjE)
       (simp_all add: DC_grad_def DC_grad_j_def DC_grad_k_def DC_grad_l_def upd2_def Let_def upt_3)
qed

lemma DC_grad_drhodx:
  "drhodx (DC_grad rho u drho dU dE dXdx s0) j =
     (if j < 3
      then 0 + drho ! 0 * dXdx ! 0 ! j + drho ! 1 * dXdx ! 1 ! j + drho ! 2 * dXdx ! 2 ! j
      else drhodx s0 j)"
proof -
  have "j = 0 \<or> j = 1 \<or> j = 2 \<or> 3 \<le> j" by arith
  then show ?thesis
    by (elim disjE)
       (simp_all add: DC_grad_def DC_grad_j_def DC_grad_k_def DC_grad_l_def upd2_def Let_def upt_3)
qed

lemma DC_grad_dEdx:
  "dEdx (DC_grad rho u drho dU dE dXdx s0) j =
     (if j < 3
      then 0 + dE ! 0 * dXdx ! 0 ! j + dE ! 1 * dXdx ! 1 ! j + dE ! 2 * dXdx ! 2 ! j
      else dEdx s0 j)"
proof -
  have "j = 0 \<or> j = 1 \<or> j = 2 \<or> 3 \<le> j" by arith
  then show ?thesis
    by (elim disjE)
       (simp_all add: DC_grad_def DC_grad_j_def DC_grad_k_def DC_grad_l_def upd2_def Let_def upt_3)
qed

text \<open>
  For a state at rest (zero momentum, positive density, all input gradients zero,
  \<open>cv \<noteq> 0\<close>), and when the cells of \<^verbatim>\<open>du\<close> hold 0 at the declaration, the stores
  are those of a flow without viscous stress and heat flux: \<^verbatim>\<open>v\<close> holds the gravity
  source \<open>- rho * g * wJ\<close> in component 3 and 0 elsewhere, and \<^verbatim>\<open>dv\<close> holds the
  pressure term \<open>wJ * P * dXdx[k][j]\<close> in the momentum rows and 0 elsewhere.
\<close>

lemma DC_point_rest:
  assumes rho: "0 < inp 0 (0 * Q + i)"
    and U: "inp 0 (1 * Q + i) = 0" "inp 0 (2 * Q + i) = 0" "inp 0 (3 * Q + i) = 0"
    and dq: "\<And>c. c < 15 \<Longrightarrow> inp 1 (c * Q + i) = 0"
    and cv: "ctx 3 \<noteq> 0"
    and stale: "\<And>j l. du (uninit i) j l = 0"
  shows "DC_point ctx Q inp uninit i out =
         DC_physics Q i (inp 2 (0 * Q + i)) (inp 0 (0 * Q + i)) [0, 0, 0] (inp 0 (4 * Q + i))
           (inp 0 (4 * Q + i) * (ctx 4 / ctx 3 - 1)) (ctx 5)
           [[inp 2 (1 * Q + i), inp 2 (2 * Q + i), inp 2 (3 * Q + i)],
            [inp 2 (4 * Q + i), inp 2 (5 * Q + i), inp 2 (6 * Q + i)],
            [inp 2 (7 * Q + i), inp 2 (8 * Q + i), inp 2 (9 * Q + i)]]
           [0, 0, 0, 0, 0, 0] [0, 0, 0] out"
proof -
  note dqs = dq [of 0, simplified] dq [of 1, simplified] dq [of 2, simplified] dq [of 3, simplified]
    dq [of 4, simplified] dq [of 5, simplified] dq [of 6, simplified] dq [of 7, simplified]
    dq [of 8, simplified] dq [of 9, simplified] dq [of 10, simplified] dq [of 11, simplified]
    dq [of 12, simplified] dq [of 13, simplified] dq [of 14, simplified]
  have dq2: "inp (Suc 0) (Q + Q + i) = 0"
    using dq [of 2] by (simp add: mult_2)
  show ?thesis
    unfolding DC_point_def DC_iter_def Let_def snd_conv
    using rho U cv
    by (simp add: DC_grad_dudx DC_grad_drhodx DC_grad_dEdx dqs dq2 stale)
qed


lemma DC_rest_state_outputs:
  assumes i: "i < Q"
    and rho: "0 < inp 0 (0 * Q + i)"
    and U: "inp 0 (1 * Q + i) = 0" "inp 0 (2 * Q + i) = 0" "inp 0 (3 * Q + i) = 0"
    and dq: "\<And>c. c < 15 \<Longrightarrow> inp 1 (c * Q + i) = 0"
    and cv: "ctx 3 \<noteq> 0"
    and stale: "\<And>j l. du (uninit i) j l = 0"
    and k: "k < 3" and j: "j < 3"
  shows "snd (DC ctx Q inp uninit out) (0, 0 * Q + i) = 0"
    and "snd (DC ctx Q inp uninit out) (0, 1 * Q + i) = 0"
    and "snd (DC ctx Q inp uninit out) (0, 2 * Q + i) = 0"
    and "snd (DC ctx Q inp uninit out) (0, 3 * Q + i)
           = - inp 0 (0 * Q + i) * ctx 5 * inp 2 (0 * Q + i)"
    and "snd (DC ctx Q inp uninit out) (0, 4 * Q + i) = 0"
    and "snd (DC ctx Q inp uninit out) (1, (k * 5 + 0) * Q + i) = 0"
    and "snd (DC ctx Q inp uninit out) (1, (k * 5 + (j + 1)) * Q + i)
           = inp 2 (0 * Q + i)
             * (inp 0 (4 * Q + i) * (ctx 4 / ctx 3 - 1) * inp 2 ((1 + k * 3 + j) * Q + i))"
    and "snd (DC ctx Q inp uninit out) (1, (k * 5 + 4) * Q + i) = 0"
proof -
  have cell: "snd (DC ctx Q inp uninit out) a = DC_point ctx Q inp uninit i out a"
    if "a \<in> comp_cells 0 5 Q i \<union> comp_cells 1 15 Q i" for a
    using write_only_pointwise_cell [OF DC_frame i, of a ctx inp uninit out out] that
    by (simp add: DC_def)
  have c0: "snd (DC ctx Q inp uninit out) (0, c * Q + i)
            = DC_point ctx Q inp uninit i out (0, c * Q + i)" if "c < 5" for c
    by (rule cell) (use that in \<open>auto simp: comp_cells_def add.commute\<close>)
  have c1: "snd (DC ctx Q inp uninit out) (1, c * Q + i)
            = DC_point ctx Q inp uninit i out (1, c * Q + i)" if "c < 15" for c
    by (rule cell) (use that in \<open>auto simp: comp_cells_def add.commute\<close>)
  note rest = DC_point_rest [where inp = inp and Q = Q and i = i and uninit = uninit
      and out = out and ctx = ctx, OF rho U dq cv stale]
  from k j have kj: "k = 0 \<or> k = 1 \<or> k = 2" "j = 0 \<or> j = 1 \<or> j = 2" by arith+
  have n2: "Q + Q + i = 2 * Q + i" "Q + (Q + Q) + i = 3 * Q + i" by simp_all
  have kb: "k * 5 + 0 < 15" "k * 5 + (j + 1) < 15" "k * 5 + 4 < 15" using k j by simp_all
  show "snd (DC ctx Q inp uninit out) (0, 0 * Q + i) = 0"
    using c0 [of 0] i by (simp add: rest DC_physics_def Let_def upt_3)
  show "snd (DC ctx Q inp uninit out) (0, 1 * Q + i) = 0"
    using c0 [of 1] i by (simp add: rest DC_physics_def Let_def upt_3)
  show "snd (DC ctx Q inp uninit out) (0, 2 * Q + i) = 0"
    using c0 [of 2] i by (simp add: rest DC_physics_def Let_def upt_3)
  show "snd (DC ctx Q inp uninit out) (0, 3 * Q + i)
           = - inp 0 (0 * Q + i) * ctx 5 * inp 2 (0 * Q + i)"
    using c0 [of 3] i by (simp add: rest DC_physics_def Let_def upt_3)
  show "snd (DC ctx Q inp uninit out) (0, 4 * Q + i) = 0"
    using c0 [of 4] i by (simp add: rest DC_physics_def Let_def upt_3)
  show "snd (DC ctx Q inp uninit out) (1, (k * 5 + 0) * Q + i) = 0"
    using kj(1) c1 [OF kb(1)] i
    by (elim disjE) (simp_all add: rest DC_physics_def Let_def upt_3)
  show "snd (DC ctx Q inp uninit out) (1, (k * 5 + 4) * Q + i) = 0"
    using kj(1) c1 [OF kb(3)] i
    by (elim disjE) (simp_all add: rest DC_physics_def Let_def upt_3)
  show "snd (DC ctx Q inp uninit out) (1, (k * 5 + (j + 1)) * Q + i)
           = inp 2 (0 * Q + i)
             * (inp 0 (4 * Q + i) * (ctx 4 / ctx 3 - 1) * inp 2 ((1 + k * 3 + j) * Q + i))"
    using kj c1 [OF kb(2)] i
    by (elim disjE) (simp_all add: rest DC_physics_def Let_def upt_3 n2)
qed

text \<open>
  Claim C2 at a failing input: \<open>Q = 1\<close>, context
  \<open>(lambda, mu, k, cv, cp, g, Rd) = (0, 1, 0, 1, 2, 1, 1)\<close>, state
  \<open>(rho, U, E) = (1, (0, 0, 0), 1)\<close>, all gradients zero, \<open>wJ = 1\<close> and
  \<open>dXdx = ((1, 0, 0), (1, 1, 0), (0, 0, 1))\<close>. When the local array \<^verbatim>\<open>du\<close> holds 1 in
  every cell at its declaration, the momentum cells of \<^verbatim>\<open>dv\<close> carry a viscous flux;
  when it holds 0 they carry the pressure term \<open>wJ * P * dXdx[k][j]\<close> alone. The cells
  listed are \<^verbatim>\<open>dv\<close> 0..14, then \<^verbatim>\<open>v\<close> 0..4.
\<close>

theorem DC_rest_state_viscous_flux:
  "map (snd (DC (buf_of [0, 1, 0, 1, 2, 1, 1]) 1
         (fields_of [[1, 0, 0, 0, 1], [], [1, 1, 0, 0, 1, 1, 0, 0, 0, 1], []])
         (\<lambda>_. grads_const 1) (outs_of [])))
       [(1, 0), (1, 1), (1, 2), (1, 3), (1, 4), (1, 5), (1, 6), (1, 7), (1, 8), (1, 9),
        (1, 10), (1, 11), (1, 12), (1, 13), (1, 14), (0, 0), (0, 1), (0, 2), (0, 3), (0, 4)]
     = [0, - 1, - 1, - 1, 0, 0, - 2, 0, - 1, 0, 0, - 1, 0, 1, 0, 0, 0, 0, - 1, 0]
   \<and> map (snd (DC (buf_of [0, 1, 0, 1, 2, 1, 1]) 1
         (fields_of [[1, 0, 0, 0, 1], [], [1, 1, 0, 0, 1, 1, 0, 0, 0, 1], []])
         (\<lambda>_. grads_const 0) (outs_of [])))
       [(1, 0), (1, 1), (1, 2), (1, 3), (1, 4), (1, 5), (1, 6), (1, 7), (1, 8), (1, 9),
        (1, 10), (1, 11), (1, 12), (1, 13), (1, 14), (0, 0), (0, 1), (0, 2), (0, 3), (0, 4)]
     = [0, 1, 0, 0, 0, 0, 1, 1, 0, 0, 0, 0, 0, 1, 0, 0, 0, 0, - 1, 0]"
  by (simp add: DC_eval)

end
